theory Spec2Isabelle
  imports Complex_Main "HOL-Library.Sublist"
begin

section \<open>JavaScript numbers and values\<close>

text \<open>
  A JavaScript number is a finite value, one of the two infinities, or NaN. Finite
  values are reals, and the two zeros \<open>+0\<close> and \<open>-0\<close> are one value, \<open>Fin 0\<close>, which
  behaves as \<open>+0\<close>. Arithmetic never raises; the cases below are those of the language
  (\<open>x / 0\<close> is an infinity or NaN, \<open>Infinity - Infinity\<close> is NaN, and so on). The
  operations of this section are exact; the rounding of IEEE-754 doubles is defined
  in the next section and applied to the total of the weights, where it decides the
  outcome.
\<close>

datatype jsnum = Fin real | PInf | NInf | NaN

fun js_neg :: "jsnum \<Rightarrow> jsnum" where
  "js_neg (Fin a) = Fin (- a)"
| "js_neg PInf = NInf"
| "js_neg NInf = PInf"
| "js_neg NaN = NaN"

fun js_add :: "jsnum \<Rightarrow> jsnum \<Rightarrow> jsnum" where
  "js_add NaN y = NaN"
| "js_add x NaN = NaN"
| "js_add (Fin a) (Fin b) = Fin (a + b)"
| "js_add PInf NInf = NaN"
| "js_add NInf PInf = NaN"
| "js_add PInf y = PInf"
| "js_add x PInf = PInf"
| "js_add NInf y = NInf"
| "js_add x NInf = NInf"

definition js_sub :: "jsnum \<Rightarrow> jsnum \<Rightarrow> jsnum" where
  "js_sub x y = js_add x (js_neg y)"

fun js_mul :: "jsnum \<Rightarrow> jsnum \<Rightarrow> jsnum" where
  "js_mul NaN y = NaN"
| "js_mul x NaN = NaN"
| "js_mul (Fin a) (Fin b) = Fin (a * b)"
| "js_mul (Fin a) y = (if a = 0 then NaN else if 0 < a then y else js_neg y)"
| "js_mul x (Fin b) = (if b = 0 then NaN else if 0 < b then x else js_neg x)"
| "js_mul PInf y = y"
| "js_mul NInf y = js_neg y"

fun js_div :: "jsnum \<Rightarrow> jsnum \<Rightarrow> jsnum" where
  "js_div NaN y = NaN"
| "js_div x NaN = NaN"
| "js_div (Fin a) (Fin b) =
     (if b = 0 then (if a = 0 then NaN else if 0 < a then PInf else NInf)
      else Fin (a / b))"
| "js_div (Fin a) y = Fin 0"
| "js_div x (Fin b) = (if 0 \<le> b then x else js_neg x)"
| "js_div x y = NaN"

fun js_lt :: "jsnum \<Rightarrow> jsnum \<Rightarrow> bool" where
  "js_lt NaN y = False"
| "js_lt x NaN = False"
| "js_lt (Fin a) (Fin b) = (a < b)"
| "js_lt x NInf = False"
| "js_lt PInf y = False"
| "js_lt x y = True"

definition js_gt :: "jsnum \<Rightarrow> jsnum \<Rightarrow> bool" where
  "js_gt x y = js_lt y x"

definition js_ge :: "jsnum \<Rightarrow> jsnum \<Rightarrow> bool" where
  "js_ge x y = (js_lt y x \<or> (x = y \<and> x \<noteq> NaN))"

fun js_abs :: "jsnum \<Rightarrow> jsnum" where
  "js_abs (Fin a) = Fin \<bar>a\<bar>"
| "js_abs NInf = PInf"
| "js_abs x = x"

text \<open>
  The value of a numeric property of a JSON object: a number, \<open>null\<close>, or
  \<open>undefined\<close> when the property is absent. \<open>toNumber\<close> is the coercion the
  arithmetic operators apply, \<open>truthy\<close> the one \<open>!\<close>, \<open>||\<close> and \<open>if\<close> apply.
\<close>

datatype jsval = Undefined | Null | Num jsnum

fun toNumber :: "jsval \<Rightarrow> jsnum" where
  "toNumber Undefined = NaN"
| "toNumber Null = Fin 0"
| "toNumber (Num n) = n"

fun truthy :: "jsval \<Rightarrow> bool" where
  "truthy Undefined = False"
| "truthy Null = False"
| "truthy (Num n) = (n \<noteq> Fin 0 \<and> n \<noteq> NaN)"

definition isNaN :: "jsval \<Rightarrow> bool" where
  "isNaN v = (toNumber v = NaN)"

definition js_or :: "jsval \<Rightarrow> jsval \<Rightarrow> jsval" where
  "js_or a b = (if truthy a then a else b)"

section \<open>Rounding to a double\<close>

text \<open>
  The finite doubles are the whole multiples \<open>m * 2^e\<close> of a power of two with
  \<open>\<bar>m\<bar> < 2^53\<close> and \<open>-1074 \<le> e \<le> 971\<close>. An addition or a subtraction of two doubles
  yields the double nearest to the exact result, the one with the even multiple when
  two are equally near, and an infinity when that would reach \<open>2^1024\<close>. The total of
  the weights is compared with \<open>0.1\<close>, which is not a double, so there the rounding
  decides and is modelled.

  \<open>binade x\<close> is the exponent \<open>k\<close> with \<open>2^k \<le> \<bar>x\<bar> < 2^(k+1)\<close>, found by halving or
  doubling.
\<close>

function exp_up :: "real \<Rightarrow> int" where
  "exp_up x = (if x < 2 then 0 else exp_up (x / 2) + 1)"
  by pat_completeness auto
termination
proof (relation "measure (\<lambda>x. nat \<lfloor>x\<rfloor>)")
  show "wf (measure (\<lambda>x. nat \<lfloor>x\<rfloor>))" by simp
next
  fix x :: real
  assume "\<not> x < 2"
  then have x: "2 \<le> x" by simp
  then have c: "2 \<le> \<lfloor>x\<rfloor>" by (simp add: le_floor_iff)
  have "x / 2 < real_of_int \<lfloor>x\<rfloor>"
  proof -
    have "x < real_of_int \<lfloor>x\<rfloor> + 1" by linarith
    moreover have "2 \<le> real_of_int \<lfloor>x\<rfloor>" using c by linarith
    ultimately show ?thesis by linarith
  qed
  then have "\<lfloor>x / 2\<rfloor> < \<lfloor>x\<rfloor>" by (simp only: floor_less_iff)
  then show "(x / 2, x) \<in> measure (\<lambda>x. nat \<lfloor>x\<rfloor>)" using c by simp
qed

function exp_down :: "real \<Rightarrow> int" where
  "exp_down x = (if x \<le> 0 \<or> 1 \<le> x then 0 else exp_down (2 * x) - 1)"
  by pat_completeness auto
termination
proof (relation "measure (\<lambda>x. nat \<lceil>1 / x\<rceil>)")
  show "wf (measure (\<lambda>x. nat \<lceil>1 / x\<rceil>))" by simp
next
  fix x :: real
  assume "\<not> (x \<le> 0 \<or> 1 \<le> x)"
  then have x: "0 < x" "x < 1" by simp_all
  then have "1 < 1 / x" by simp
  then have c: "2 \<le> \<lceil>1 / x\<rceil>" by linarith
  have "1 / (2 * x) = (1 / x) / 2" by simp
  also have "\<dots> \<le> real_of_int \<lceil>1 / x\<rceil> / 2" by (simp add: divide_right_mono)
  also have "\<dots> \<le> real_of_int (\<lceil>1 / x\<rceil> - 1)" using c by simp
  finally have "\<lceil>1 / (2 * x)\<rceil> \<le> \<lceil>1 / x\<rceil> - 1" by (simp only: ceiling_le_iff)
  then have "nat \<lceil>1 / (2 * x)\<rceil> < nat \<lceil>1 / x\<rceil>" using c by linarith
  then show "(2 * x, x) \<in> measure (\<lambda>x. nat \<lceil>1 / x\<rceil>)" by simp
qed

declare exp_up.simps [simp del] exp_down.simps [simp del]

definition binade :: "real \<Rightarrow> int" where
  "binade x = (if 1 \<le> \<bar>x\<bar> then exp_up \<bar>x\<bar> else exp_down \<bar>x\<bar>)"

text \<open>
  The spacing of the doubles around \<open>x\<close>: 52 binary places below the leading one,
  and \<open>2^-1074\<close> for the subnormal numbers.
\<close>

definition quantum :: "real \<Rightarrow> real" where
  "quantum x = power_int 2 (max (binade x - 52) (- 1074))"

text \<open>The nearest integer, the even one at a tie.\<close>

definition rne :: "real \<Rightarrow> int" where
  "rne y =
     (if y - of_int \<lfloor>y\<rfloor> < 1 / 2 then \<lfloor>y\<rfloor>
      else if 1 / 2 < y - of_int \<lfloor>y\<rfloor> then \<lfloor>y\<rfloor> + 1
      else if even \<lfloor>y\<rfloor> then \<lfloor>y\<rfloor> else \<lfloor>y\<rfloor> + 1)"

definition round64 :: "real \<Rightarrow> jsnum" where
  "round64 x =
     (if x = 0 then Fin 0
      else if 2 ^ 1024 \<le> \<bar>of_int (rne (x / quantum x)) * quantum x\<bar>
        then (if 0 < x then PInf else NInf)
      else Fin (of_int (rne (x / quantum x)) * quantum x))"

text \<open>\<open>x + y\<close> and \<open>x - y\<close> on doubles.\<close>

definition js_add64 :: "jsnum \<Rightarrow> jsnum \<Rightarrow> jsnum" where
  "js_add64 x y = (case js_add x y of Fin r \<Rightarrow> round64 r | z \<Rightarrow> z)"

definition js_sub64 :: "jsnum \<Rightarrow> jsnum \<Rightarrow> jsnum" where
  "js_sub64 x y = (case js_sub x y of Fin r \<Rightarrow> round64 r | z \<Rightarrow> z)"

section \<open>Text and the formatters\<close>

text \<open>
  Text written to the page is a sequence of pieces: literal characters, and numbers
  handed to the two platform formatters the script calls, \<open>Number.prototype.toFixed\<close>
  and the \<open>vi-VN\<close> currency \<open>Intl.NumberFormat\<close>. The formatters are not part of
  the repository; \<open>render\<close> takes them as parameters and yields the string shown.
\<close>

datatype piece = Lit string | Fixed jsnum nat | Currency jsnum | NumStr jsnum

type_synonym jstext = "piece list"

record builtins =
  toFixed :: "jsnum \<Rightarrow> nat \<Rightarrow> string"
  formatVND :: "jsnum \<Rightarrow> string"
  numToString :: "jsnum \<Rightarrow> string"

fun render_piece :: "builtins \<Rightarrow> piece \<Rightarrow> string" where
  "render_piece B (Lit s) = s"
| "render_piece B (Fixed n d) = toFixed B n d"
| "render_piece B (Currency n) = formatVND B n"
| "render_piece B (NumStr n) = numToString B n"

definition render :: "builtins \<Rightarrow> jstext \<Rightarrow> string" where
  "render B t = concat (map (render_piece B) t)"

text \<open>app.js 976-984.\<close>

definition formatCurrency :: "jsval \<Rightarrow> jstext" where
  "formatCurrency v =
     (if \<not> truthy v \<or> isNaN v then [Lit ''--''] else [Currency (toNumber v)])"

text \<open>app.js 986-997. The three literals are \<open>1e12\<close>, \<open>1e9\<close> and \<open>1e6\<close>.\<close>

definition formatLargeNumber :: "jsval \<Rightarrow> jstext" where
  "formatLargeNumber v =
     (if \<not> truthy v \<or> isNaN v then [Lit ''--'']
      else if js_ge (toNumber v) (Fin 1000000000000)
        then [Fixed (js_div (toNumber v) (Fin 1000000000000)) 1, Lit '' trillion'']
      else if js_ge (toNumber v) (Fin 1000000000)
        then [Fixed (js_div (toNumber v) (Fin 1000000000)) 1, Lit '' billion'']
      else if js_ge (toNumber v) (Fin 1000000)
        then [Fixed (js_div (toNumber v) (Fin 1000000)) 1, Lit '' million'']
      else formatCurrency v)"

text \<open>app.js 999-1002.\<close>

definition formatNumber :: "jsval \<Rightarrow> jstext" where
  "formatNumber v =
     (if \<not> truthy v \<or> isNaN v then [Lit ''--''] else [Fixed (toNumber v) 2])"

text \<open>app.js 1004-1007.\<close>

definition formatPercent :: "jsval \<Rightarrow> jstext" where
  "formatPercent v =
     (if \<not> truthy v \<or> isNaN v then [Lit ''--'']
      else [Fixed (toNumber v) 1, Lit ''%''])"

section \<open>Upside and the threshold classifier\<close>

text \<open>
  The expression \<open>((weightedValue - currentPrice) / currentPrice) * 100\<close> of
  \<open>updateWeightedResults\<close> (app.js 590) and \<open>updateRecommendation\<close> (app.js 605),
  which the specification calls \<open>computeUpsidePercent\<close>.
\<close>

definition computeUpsidePercent :: "jsnum \<Rightarrow> jsnum \<Rightarrow> jsnum" where
  "computeUpsidePercent targetPrice currentPrice =
     js_mul (js_div (js_sub targetPrice currentPrice) currentPrice) (Fin 100)"

text \<open>
  The \<open>else\<close> branch of \<open>updateRecommendation\<close> (app.js 614-626), which the
  specification calls \<open>classifyRecommendation\<close>: recommendation, status and
  reasoning.
\<close>

record verdict =
  recommendation :: string
  status :: string
  reasoning :: jstext

definition classifyRecommendation :: "jsnum \<Rightarrow> verdict" where
  "classifyRecommendation upside =
     (if js_gt upside (Fin 15) then
        \<lparr>recommendation = ''BUY'', status = ''positive'',
         reasoning = [Lit ''Significant undervaluation detected - upside potential above 15%'']\<rparr>
      else if js_lt upside (Fin (- 15)) then
        \<lparr>recommendation = ''SELL'', status = ''negative'',
         reasoning = [Lit ''Significant overvaluation detected - downside risk above 15%'']\<rparr>
      else
        \<lparr>recommendation = ''HOLD'', status = ''neutral'',
         reasoning = [Lit ''Stock is fairly valued - upside/downside within 15% range'']\<rparr>)"

section \<open>The session and the page\<close>

text \<open>
  The fields of \<open>StockValuationApp\<close> (app.js 10-33) and the objects they hold.
  A response object keeps its numeric properties by name (\<open>num\<close>), absent ones
  being \<open>Undefined\<close>, and its textual ones likewise (\<open>str\<close>). Properties have the
  types of the interface: a response with a string where a number is due is outside
  the model. A property that several objects have carries a prefix for its object:
  \<open>sd\<close> for the stock data, \<open>cd\<close> for the chart data, \<open>vr\<close> for the response to a
  valuation request and \<open>v\<close> for its \<open>valuations\<close>, \<open>mc\<close> for its
  \<open>market_comparison\<close>, \<open>r\<close> for the four models in the held results and \<open>rq\<close>
  for the body of the request.
\<close>

record stock_data =
  sd_success :: bool
  sd_error :: "string option"
  str :: "string \<Rightarrow> string option"
  num :: "string \<Rightarrow> jsval"

type_synonym series = "jsval list"

type_synonym historical = "string \<Rightarrow> series option"

record chart_data =
  cd_success :: bool
  cd_data :: "historical option"

record assumptions =
  revenueGrowth :: jsnum
  terminalGrowth :: jsnum
  wacc :: jsnum
  requiredReturn :: jsnum
  taxRate :: jsnum
  projectionYears :: jsnum

record weights =
  fcfe :: jsnum
  fcff :: jsnum
  justified_pe :: jsnum
  justified_pb :: jsnum

record valuations =
  v_fcfe :: jsval
  v_fcff :: jsval
  v_justified_pe :: jsval
  v_justified_pb :: jsval
  v_weighted_average :: jsval

record market_comparison =
  mc_recommendation :: "string option"

record summary =
  confidence :: "string option"

record valuation_response =
  vr_success :: bool
  vr_error :: "string option"
  vr_valuations :: "valuations option"
  vr_financial_data :: "(string \<Rightarrow> jsval) option"
  vr_market_comparison :: "market_comparison option"
  vr_summary :: "summary option"

record model_result =
  shareValue :: jsval
  equityValue :: jsval

record valuation_results =
  r_fcfe :: model_result
  r_fcff :: model_result
  r_justified_pe :: model_result
  r_justified_pb :: model_result
  weighted_average :: jsval
  summary :: "summary option"
  market_comparison :: "market_comparison option"
  financial_data :: "(string \<Rightarrow> jsval) option"

text \<open>
  A Chart.js chart as far as the script touches it: \<open>data.labels\<close> and the
  \<open>data\<close> of each entry of \<open>data.datasets\<close>. \<open>charts\<close> maps \<open>roeRoa\<close> and
  \<open>liquidity\<close> to their chart, or to \<open>None\<close> while the field is \<open>null\<close>.
\<close>

record chart =
  labels :: "series option"
  datasets :: "series option list"

text \<open>
  An element of the page: its \<open>textContent\<close> or \<open>innerHTML\<close> (\<open>content\<close>), its
  \<open>className\<close>, \<open>disabled\<close> and the \<open>value\<close> of an input. The page maps the ids
  that exist to their element; \<open>getElementById\<close> of any other id is \<open>null\<close>.
\<close>

record element =
  content :: jstext
  className :: string
  disabled :: bool
  input_value :: jstext

text \<open>
  Requests sent with \<open>fetch\<close> are kept in a log, newest last. The body of the POST
  is \<open>requestData\<close> of \<open>calculateValuation\<close> (app.js 444-454).
\<close>

record request_data =
  rq_revenueGrowth :: jsnum
  rq_terminalGrowth :: jsnum
  rq_wacc :: jsnum
  rq_requiredReturn :: jsnum
  rq_taxRate :: jsnum
  rq_projectionYears :: jsnum
  rq_roe :: jsnum
  rq_payoutRatio :: jsnum
  rq_modelWeights :: weights

datatype request = GET string | POST string request_data

record app =
  currentStock :: "string option"
  stockData :: "stock_data option"
  historicalData :: "historical option"
  assumptions :: assumptions
  modelWeights :: weights
  valuationResults :: "valuation_results option"
  apiBaseUrl :: string
  charts :: "string \<Rightarrow> chart option"
  document :: "string \<Rightarrow> element option"
  requests :: "request list"

text \<open>
  An exception has a name and a message. A statement either completes or throws,
  in both cases leaving a state behind: what was assigned before a throw stays
  assigned.
\<close>

datatype exn = Exn (exn_name: string) (exn_message: jstext)

datatype outcome = Done app | Threw exn app

fun state_of :: "outcome \<Rightarrow> app" where
  "state_of (Done s) = s"
| "state_of (Threw e s) = s"

fun threw :: "outcome \<Rightarrow> bool" where
  "threw (Done s) = False"
| "threw (Threw e s) = True"

text \<open>
  Reading a property of \<open>null\<close> or \<open>undefined\<close> throws a TypeError, whose message
  depends on the browser.
\<close>

definition type_error :: exn where
  "type_error = Exn ''TypeError'' [Lit ''Cannot read properties of null'']"

definition andThen :: "outcome \<Rightarrow> (app \<Rightarrow> outcome) \<Rightarrow> outcome" where
  "andThen r f = (case r of Done s \<Rightarrow> f s | Threw e s \<Rightarrow> Threw e s)"

fun seq :: "(app \<Rightarrow> outcome) list \<Rightarrow> app \<Rightarrow> outcome" where
  "seq [] s = Done s"
| "seq (f # fs) s = andThen (f s) (seq fs)"

text \<open>\<open>try { body } catch (error) { handler }\<close> and \<open>finally { last }\<close>.\<close>

definition tryCatch :: "outcome \<Rightarrow> (exn \<Rightarrow> app \<Rightarrow> outcome) \<Rightarrow> outcome" where
  "tryCatch r h = (case r of Done s \<Rightarrow> Done s | Threw e s \<Rightarrow> h e s)"

definition tryFinally :: "outcome \<Rightarrow> (app \<Rightarrow> outcome) \<Rightarrow> outcome" where
  "tryFinally r f =
     (case r of
        Done s \<Rightarrow> f s
      | Threw e s \<Rightarrow> (case f s of Done s' \<Rightarrow> Threw e s' | Threw e' s' \<Rightarrow> Threw e' s'))"

text \<open>\<open>document.getElementById(i).textContent = t\<close> (or \<open>innerHTML\<close>) and its like.\<close>

definition setContent :: "string \<Rightarrow> jstext \<Rightarrow> app \<Rightarrow> outcome" where
  "setContent i t s =
     (case document s i of
        None \<Rightarrow> Threw type_error s
      | Some e \<Rightarrow> Done (s\<lparr>document := (document s)(i \<mapsto> e\<lparr>content := t\<rparr>)\<rparr>))"

definition setClassName :: "string \<Rightarrow> string \<Rightarrow> app \<Rightarrow> outcome" where
  "setClassName i c s =
     (case document s i of
        None \<Rightarrow> Threw type_error s
      | Some e \<Rightarrow> Done (s\<lparr>document := (document s)(i \<mapsto> e\<lparr>className := c\<rparr>)\<rparr>))"

definition setDisabled :: "string \<Rightarrow> bool \<Rightarrow> app \<Rightarrow> outcome" where
  "setDisabled i b s =
     (case document s i of
        None \<Rightarrow> Threw type_error s
      | Some e \<Rightarrow> Done (s\<lparr>document := (document s)(i \<mapsto> e\<lparr>disabled := b\<rparr>)\<rparr>))"

definition setInputValue :: "string \<Rightarrow> jstext \<Rightarrow> app \<Rightarrow> outcome" where
  "setInputValue i t s =
     (case document s i of
        None \<Rightarrow> Threw type_error s
      | Some e \<Rightarrow> Done (s\<lparr>document := (document s)(i \<mapsto> e\<lparr>input_value := t\<rparr>)\<rparr>))"

text \<open>app.js 1106-1111.\<close>

definition safeUpdateElement :: "string \<Rightarrow> jstext \<Rightarrow> app \<Rightarrow> outcome" where
  "safeUpdateElement i t s =
     (case document s i of
        None \<Rightarrow> Done s
      | Some e \<Rightarrow> Done (s\<lparr>document := (document s)(i \<mapsto> e\<lparr>content := t\<rparr>)\<rparr>))"

text \<open>
  app.js 859-868. After the assignment to \<open>className\<close> the class list has no
  \<open>hidden\<close> entry, so removing it changes nothing; the timer that hides the banner
  five seconds later is outside the model.
\<close>

definition showStatus :: "jstext \<Rightarrow> string \<Rightarrow> app \<Rightarrow> outcome" where
  "showStatus message type =
     seq [setContent ''status-message'' message,
          setClassName ''status-message'' (''status-message '' @ type)]"

text \<open>app.js 870-879.\<close>

definition showLoading :: "bool \<Rightarrow> app \<Rightarrow> outcome" where
  "showLoading show =
     (if show then
        seq [setContent ''load-data-btn'' [Lit ''Loading...''],
             setDisabled ''load-data-btn'' True]
      else
        seq [setContent ''load-data-btn'' [Lit ''Load Company Data''],
             setDisabled ''load-data-btn'' False])"

section \<open>Weights\<close>

text \<open>app.js 307-312.\<close>

definition updateWeightDisplay :: "app \<Rightarrow> outcome" where
  "updateWeightDisplay s =
     seq [setContent ''fcfe-weight-value'' [Fixed (fcfe (modelWeights s)) 1, Lit ''%''],
          setContent ''fcff-weight-value'' [Fixed (fcff (modelWeights s)) 1, Lit ''%''],
          setContent ''pe-weight-value'' [Fixed (justified_pe (modelWeights s)) 1, Lit ''%''],
          setContent ''pb-weight-value'' [Fixed (justified_pb (modelWeights s)) 1, Lit ''%'']] s"

text \<open>The sum of app.js 315-316: three additions of doubles, left to right.\<close>

definition totalWeight :: "weights \<Rightarrow> jsnum" where
  "totalWeight w =
     js_add64 (js_add64 (js_add64 (fcfe w) (fcff w)) (justified_pe w)) (justified_pb w)"

text \<open>
  app.js 314-325. \<open>total - 100\<close> is a subtraction of doubles, and the literal \<open>0.1\<close>
  is the double nearest to one tenth.
\<close>

definition updateTotalWeight :: "app \<Rightarrow> outcome" where
  "updateTotalWeight s =
     (let total = totalWeight (modelWeights s) in
      seq [setContent ''total-weight'' [Fixed total 1],
           setClassName ''total-weight''
             (if js_lt (js_abs (js_sub64 total (Fin 100))) (round64 (1 / 10))
              then ''weight-total-correct'' else ''weight-total-incorrect'')] s)"

section \<open>Weighted result and recommendation\<close>

text \<open>
  The two templates the script repeats for a percentage:
  \<open>`${d > 0 ? '+' : ''}${d.toFixed(1)}%`\<close> and
  \<open>`result-diff ${d > 0 ? 'positive' : 'negative'}`\<close>.
\<close>

definition signedPercent :: "jsnum \<Rightarrow> jstext" where
  "signedPercent d = [Lit (if js_gt d (Fin 0) then ''+'' else []), Fixed d 1, Lit ''%'']"

definition diffClass :: "jsnum \<Rightarrow> string" where
  "diffClass d = ''result-diff '' @ (if js_gt d (Fin 0) then ''positive'' else ''negative'')"

text \<open>app.js 587-600.\<close>

definition updateWeightedResults :: "app \<Rightarrow> outcome" where
  "updateWeightedResults s =
     (case valuationResults s of
        None \<Rightarrow> Threw type_error s
      | Some results \<Rightarrow>
     (case stockData s of
        None \<Rightarrow> Threw type_error s
      | Some stock \<Rightarrow>
          (let weightedValue = weighted_average results;
               currentPrice = num stock ''current_price'';
               weightedDiff =
                 computeUpsidePercent (toNumber weightedValue) (toNumber currentPrice)
           in seq [setContent ''weighted-result'' (formatCurrency weightedValue),
                   setContent ''weighted-diff'' (signedPercent weightedDiff),
                   setClassName ''weighted-diff'' (diffClass weightedDiff),
                   safeUpdateElement ''target-price'' (formatCurrency weightedValue),
                   safeUpdateElement ''summary-potential'' [Fixed weightedDiff 1, Lit ''%''],
                   safeUpdateElement ''return-value'' [Fixed weightedDiff 1, Lit ''%'']] s)))"

text \<open>\<open>s.includes(t)\<close> on strings.\<close>

definition js_includes :: "string \<Rightarrow> string \<Rightarrow> bool" where
  "js_includes s t = sublist t s"

text \<open>
  The \<open>if\<close> of app.js 609-627. With a \<open>market_comparison\<close> whose \<open>recommendation\<close>
  is absent, \<open>recommendation.includes\<close> throws; that is \<open>None\<close>.
\<close>

definition chooseRecommendation :: "valuation_results \<Rightarrow> jsval \<Rightarrow> verdict option" where
  "chooseRecommendation results currentPrice =
     (let weightedValue = weighted_average results;
          upside = computeUpsidePercent (toNumber weightedValue) (toNumber currentPrice)
      in case market_comparison results of
           Some mc \<Rightarrow>
             (case mc_recommendation mc of
                None \<Rightarrow> None
              | Some r \<Rightarrow>
                  Some \<lparr>recommendation = r,
                        status = (if js_includes r ''BUY'' then ''positive''
                                  else if js_includes r ''SELL'' then ''negative''
                                  else ''neutral''),
                        reasoning = [Lit ''Based on 4-model average of '']
                                    @ formatCurrency weightedValue
                                    @ [Lit '' vs current price '']
                                    @ formatCurrency currentPrice\<rparr>)
         | None \<Rightarrow> Some (classifyRecommendation upside))"

text \<open>\<open>`<span class="status status--${status}">${recommendation}</span>`\<close>.\<close>

definition statusSpan :: "string \<Rightarrow> string \<Rightarrow> jstext" where
  "statusSpan st r =
     [Lit ''<span class=\"status status--'', Lit st, Lit ''\">'', Lit r, Lit ''</span>'']"

text \<open>\<open>a || b\<close> on an optional string: the empty string is falsy.\<close>

definition strOr :: "string option \<Rightarrow> string \<Rightarrow> string" where
  "strOr a b = (case a of None \<Rightarrow> b | Some x \<Rightarrow> if x = [] then b else x)"

text \<open>app.js 602-639.\<close>

definition updateRecommendation :: "app \<Rightarrow> outcome" where
  "updateRecommendation s =
     (case valuationResults s of
        None \<Rightarrow> Threw type_error s
      | Some results \<Rightarrow>
     (case stockData s of
        None \<Rightarrow> Threw type_error s
      | Some stock \<Rightarrow>
     (case chooseRecommendation results (num stock ''current_price'') of
        None \<Rightarrow> Threw type_error s
      | Some v \<Rightarrow>
          seq [setContent ''recommendation'' (statusSpan (status v) (recommendation v)),
               setContent ''final-recommendation'' (statusSpan (status v) (recommendation v)),
               safeUpdateElement ''recommendation-reasoning'' (reasoning v),
               safeUpdateElement ''confidence-level''
                 [Lit (strOr (case summary results of None \<Rightarrow> None
                              | Some sm \<Rightarrow> confidence sm) ''--'')]] s)))"

text \<open>
  app.js 279-305. The event carries the id of the slider and
  \<open>parseFloat(event.target.value)\<close>.
\<close>

record event =
  target_id :: string
  target_value :: jsnum

definition updateModelWeights :: "event \<Rightarrow> app \<Rightarrow> outcome" where
  "updateModelWeights ev s =
     (let sliderId = target_id ev;
          v = target_value ev;
          w = modelWeights s;
          w' = (if sliderId = ''fcfe-weight'' then w\<lparr>fcfe := v\<rparr>
                else if sliderId = ''fcff-weight'' then w\<lparr>fcff := v\<rparr>
                else if sliderId = ''pe-weight'' then w\<lparr>justified_pe := v\<rparr>
                else if sliderId = ''pb-weight'' then w\<lparr>justified_pb := v\<rparr>
                else w)
      in seq [updateWeightDisplay,
              updateTotalWeight,
              (\<lambda>s. if valuationResults s \<noteq> None
                    then seq [updateWeightedResults, updateRecommendation] s
                    else Done s)] (s\<lparr>modelWeights := w'\<rparr>))"

text \<open>app.js 327-345.\<close>

definition normalizeWeights :: "app \<Rightarrow> outcome" where
  "normalizeWeights s =
     seq [setInputValue ''fcfe-weight'' [NumStr (Fin 25)],
          setInputValue ''fcff-weight'' [NumStr (Fin 25)],
          setInputValue ''pe-weight'' [NumStr (Fin 25)],
          setInputValue ''pb-weight'' [NumStr (Fin 25)],
          updateWeightDisplay,
          updateTotalWeight,
          (\<lambda>s. if valuationResults s \<noteq> None
                then seq [updateWeightedResults, updateRecommendation] s
                else Done s)]
       (s\<lparr>modelWeights :=
            \<lparr>fcfe = Fin 25, fcff = Fin 25, justified_pe = Fin 25, justified_pb = Fin 25\<rparr>\<rparr>)"

section \<open>Clearing and filling the page\<close>

text \<open>The ids that \<open>clearDisplay\<close> resets to \<open>--\<close>, in the order of app.js 883-956.\<close>

definition clearedIds :: "string list" where
  "clearedIds =
    [''company-name'', ''company-symbol'', ''company-sector'', ''company-exchange'',
     ''current-price'', ''market-cap'', ''pe-ratio'', ''pb-ratio'', ''ps-ratio'',
     ''eps'', ''book-value-per-share'', ''ev-ebitda'', ''revenue'', ''net-income'',
     ''ebitda'', ''roe'', ''roa'', ''debt-equity'', ''asset-turnover'',
     ''inventory-turnover'', ''fixed-asset-turnover'', ''current-ratio'',
     ''quick-ratio'', ''cash-ratio'', ''interest-coverage'', ''gross-profit-margin'',
     ''ebit-margin'', ''net-profit-margin'', ''ev-ebitda-ratio'', ''fcfe-result'',
     ''fcff-result'', ''pe-result'', ''pb-result'', ''weighted-result'', ''fcfe-diff'',
     ''fcff-diff'', ''pe-diff'', ''pb-diff'', ''weighted-diff'', ''summary-symbol'',
     ''summary-name'', ''summary-sector'', ''summary-exchange'', ''summary-price'',
     ''summary-market-cap'', ''summary-pe'', ''summary-pb'', ''target-price'',
     ''summary-potential'', ''return-value'', ''fcfe-equity'', ''fcfe-share-value'',
     ''fcfe-market-diff'', ''fcff-ev'', ''fcff-equity'', ''fcff-share-value'',
     ''fcff-market-diff'', ''pe-justified-ratio'', ''pe-current-eps'',
     ''pe-share-value'', ''pe-market-diff'', ''pb-justified-ratio'',
     ''pb-current-bvps'', ''pb-share-value'', ''pb-market-diff'']"

text \<open>app.js 881-974.\<close>

definition clearDisplay :: "app \<Rightarrow> outcome" where
  "clearDisplay =
     seq (map (\<lambda>i. safeUpdateElement i [Lit ''--'']) clearedIds @
          [setContent ''recommendation'' [Lit ''<span class=\"status status--warning\">--</span>''],
           setContent ''final-recommendation''
             [Lit ''<span class=\"status status--warning\">--</span>''],
           safeUpdateElement ''recommendation-reasoning''
             [Lit ''Please load company data to receive investment recommendations.''],
           safeUpdateElement ''confidence-level'' [Lit ''--''],
           setDisabled ''export-report-btn'' True,
           (\<lambda>s. Done (s\<lparr>valuationResults := None\<rparr>))])"

text \<open>The statements of \<open>clearCharts\<close> (app.js 529-537) for one chart.\<close>

definition clearChart :: "string \<Rightarrow> app \<Rightarrow> outcome" where
  "clearChart name s =
     (case charts s name of
        None \<Rightarrow> Threw type_error s
      | Some c \<Rightarrow>
          Done (s\<lparr>charts := (charts s)(name \<mapsto>
                  c\<lparr>labels := Some [], datasets := map (\<lambda>d. Some []) (datasets c)\<rparr>)\<rparr>))"

definition clearCharts :: "app \<Rightarrow> outcome" where
  "clearCharts = seq [clearChart ''roeRoa'', clearChart ''liquidity'']"

text \<open>\<open>this.charts.name.data.labels = v\<close> and \<open>this.charts.name.data.datasets[k].data = v\<close>.\<close>

definition setLabels :: "string \<Rightarrow> series option \<Rightarrow> app \<Rightarrow> outcome" where
  "setLabels name v s =
     (case charts s name of
        None \<Rightarrow> Threw type_error s
      | Some c \<Rightarrow> Done (s\<lparr>charts := (charts s)(name \<mapsto> c\<lparr>labels := v\<rparr>)\<rparr>))"

definition setDataset :: "string \<Rightarrow> nat \<Rightarrow> series option \<Rightarrow> app \<Rightarrow> outcome" where
  "setDataset name k v s =
     (case charts s name of
        None \<Rightarrow> Threw type_error s
      | Some c \<Rightarrow>
          if k < length (datasets c)
          then Done (s\<lparr>charts := (charts s)(name \<mapsto> c\<lparr>datasets := (datasets c)[k := v]\<rparr>)\<rparr>)
          else Threw type_error s)"

text \<open>app.js 509-527.\<close>

definition updateCharts :: "app \<Rightarrow> outcome" where
  "updateCharts s =
     (case historicalData s of
        None \<Rightarrow> clearCharts s
      | Some h \<Rightarrow>
          seq [setLabels ''roeRoa'' (h ''years''),
               setDataset ''roeRoa'' 0 (h ''roa_data''),
               setDataset ''roeRoa'' 1 (h ''roe_data''),
               setLabels ''liquidity'' (h ''years''),
               setDataset ''liquidity'' 0 (h ''current_ratio_data''),
               setDataset ''liquidity'' 1 (h ''quick_ratio_data''),
               setDataset ''liquidity'' 2 (h ''cash_ratio_data'')] s)"

text \<open>app.js 1009-1056.\<close>

definition updateOverviewDisplay :: "stock_data \<Rightarrow> app \<Rightarrow> outcome" where
  "updateOverviewDisplay data =
     seq [safeUpdateElement ''company-name'' [Lit (strOr (str data ''name'') ''--'')],
          safeUpdateElement ''company-symbol'' [Lit (strOr (str data ''symbol'') ''--'')],
          safeUpdateElement ''company-sector'' [Lit (strOr (str data ''sector'') ''--'')],
          safeUpdateElement ''company-exchange'' [Lit (strOr (str data ''exchange'') ''--'')],
          safeUpdateElement ''current-price''
            (formatCurrency (num data ''current_price'')),
          safeUpdateElement ''market-cap''
            (formatLargeNumber (num data ''market_cap'')),
          safeUpdateElement ''pe-ratio''
            (formatNumber (num data ''pe_ratio'')),
          safeUpdateElement ''pb-ratio''
            (formatNumber (num data ''pb_ratio'')),
          safeUpdateElement ''ps-ratio''
            (formatNumber (num data ''ps_ratio'')),
          safeUpdateElement ''eps''
            (formatCurrency (num data ''eps'')),
          safeUpdateElement ''book-value-per-share''
            (formatCurrency (num data ''book_value_per_share'')),
          safeUpdateElement ''ev-ebitda''
            (formatNumber (num data ''ev_ebitda'')),
          safeUpdateElement ''revenue''
            (formatLargeNumber (num data ''revenue_ttm'')),
          safeUpdateElement ''net-income''
            (formatLargeNumber (num data ''net_income_ttm'')),
          safeUpdateElement ''ebitda''
            (formatLargeNumber (num data ''ebitda'')),
          safeUpdateElement ''roe''
            (formatPercent (num data ''roe'')),
          safeUpdateElement ''roa''
            (formatPercent (num data ''roa'')),
          safeUpdateElement ''debt-equity''
            (formatNumber (num data ''debt_to_equity'')),
          safeUpdateElement ''asset-turnover''
            (formatNumber (num data ''asset_turnover'')),
          safeUpdateElement ''inventory-turnover''
            (formatNumber (num data ''inventory_turnover'')),
          safeUpdateElement ''fixed-asset-turnover''
            (formatNumber (num data ''fixed_asset_turnover'')),
          safeUpdateElement ''current-ratio''
            (formatNumber (num data ''current_ratio'')),
          safeUpdateElement ''quick-ratio''
            (formatNumber (num data ''quick_ratio'')),
          safeUpdateElement ''cash-ratio''
            (formatNumber (num data ''cash_ratio'')),
          safeUpdateElement ''interest-coverage''
            (formatNumber (num data ''interest_coverage'')),
          safeUpdateElement ''gross-profit-margin''
            (formatPercent (num data ''gross_profit_margin'')),
          safeUpdateElement ''ebit-margin''
            (formatPercent (num data ''ebit_margin'')),
          safeUpdateElement ''net-profit-margin''
            (formatPercent (num data ''net_profit_margin'')),
          safeUpdateElement ''ev-ebitda-ratio''
            (formatNumber (num data ''ev_ebitda'')),
          safeUpdateElement ''summary-symbol'' [Lit (strOr (str data ''symbol'') ''--'')],
          safeUpdateElement ''summary-name'' [Lit (strOr (str data ''name'') ''--'')],
          safeUpdateElement ''summary-sector'' [Lit (strOr (str data ''sector'') ''--'')],
          safeUpdateElement ''summary-exchange'' [Lit (strOr (str data ''exchange'') ''--'')],
          safeUpdateElement ''summary-price''
            (formatCurrency (num data ''current_price'')),
          safeUpdateElement ''summary-market-cap''
            (formatLargeNumber (num data ''market_cap'')),
          safeUpdateElement ''summary-pe''
            (formatNumber (num data ''pe_ratio'')),
          safeUpdateElement ''summary-pb''
            (formatNumber (num data ''pb_ratio''))]"

section \<open>Valuation display\<close>

text \<open>app.js 1056-1104.\<close>

definition updateModelDetails :: "app \<Rightarrow> outcome" where
  "updateModelDetails s =
     (case valuationResults s of
        None \<Rightarrow> Done s
      | Some results \<Rightarrow>
     (case stockData s of
        None \<Rightarrow> Done s
      | Some stock \<Rightarrow>
     (case financial_data results of
        None \<Rightarrow> Threw type_error s
      | Some fin \<Rightarrow>
          (let currentPrice = toNumber (num stock ''current_price'');
               eps = js_or (js_or (fin ''eps'') (num stock ''eps'')) (Num (Fin 0));
               bvps = js_or (num stock ''book_value_per_share'') (Num (Fin 0));
               fcfeEquityValue = equityValue (r_fcfe results);
               fcfeDiff = computeUpsidePercent (toNumber (shareValue (r_fcfe results))) currentPrice;
               fcffEquityValue = equityValue (r_fcff results);
               fcffEV = js_add (toNumber fcffEquityValue)
                          (toNumber (js_or (num stock ''total_debt'') (Num (Fin 0))));
               fcffDiff = computeUpsidePercent (toNumber (shareValue (r_fcff results))) currentPrice;
               justifiedPE =
                 (if js_gt (toNumber eps) (Fin 0)
                  then js_abs (js_div (toNumber (shareValue (r_justified_pe results))) (toNumber eps))
                  else Fin 0);
               peDiff =
                 computeUpsidePercent (toNumber (shareValue (r_justified_pe results))) currentPrice;
               justifiedPB =
                 (if js_gt (toNumber bvps) (Fin 0)
                  then js_abs (js_div (toNumber (shareValue (r_justified_pb results))) (toNumber bvps))
                  else Fin 0);
               pbDiff =
                 computeUpsidePercent (toNumber (shareValue (r_justified_pb results))) currentPrice;
               upside = computeUpsidePercent (toNumber (weighted_average results)) currentPrice
           in seq [safeUpdateElement ''fcfe-equity'' (formatCurrency fcfeEquityValue),
                   safeUpdateElement ''fcfe-share-value''
                     (formatCurrency (shareValue (r_fcfe results))),
                   safeUpdateElement ''fcfe-market-diff'' (signedPercent fcfeDiff),
                   safeUpdateElement ''fcff-ev'' (formatCurrency (Num fcffEV)),
                   safeUpdateElement ''fcff-equity'' (formatCurrency fcffEquityValue),
                   safeUpdateElement ''fcff-share-value''
                     (formatCurrency (shareValue (r_fcff results))),
                   safeUpdateElement ''fcff-market-diff'' (signedPercent fcffDiff),
                   safeUpdateElement ''pe-justified-ratio'' [Fixed justifiedPE 2, Lit ''x''],
                   safeUpdateElement ''pe-current-eps'' (formatCurrency eps),
                   safeUpdateElement ''pe-share-value''
                     (formatCurrency (shareValue (r_justified_pe results))),
                   safeUpdateElement ''pe-market-diff'' (signedPercent peDiff),
                   safeUpdateElement ''pb-justified-ratio'' [Fixed justifiedPB 2, Lit ''x''],
                   safeUpdateElement ''pb-current-bvps'' (formatCurrency bvps),
                   safeUpdateElement ''pb-share-value''
                     (formatCurrency (shareValue (r_justified_pb results))),
                   safeUpdateElement ''pb-market-diff'' (signedPercent pbDiff),
                   safeUpdateElement ''target-price'' (formatCurrency (weighted_average results)),
                   safeUpdateElement ''summary-potential'' (signedPercent upside),
                   updateRecommendation] s))))"

text \<open>app.js 539-585.\<close>

definition updateValuationDisplay :: "app \<Rightarrow> outcome" where
  "updateValuationDisplay s =
     (case stockData s of
        None \<Rightarrow> Threw type_error s
      | Some stock \<Rightarrow>
     (case valuationResults s of
        None \<Rightarrow> Threw type_error s
      | Some results \<Rightarrow>
          (let currentPrice = toNumber (num stock ''current_price'');
               fcfeDiff = computeUpsidePercent (toNumber (shareValue (r_fcfe results))) currentPrice;
               fcffDiff = computeUpsidePercent (toNumber (shareValue (r_fcff results))) currentPrice;
               peDiff =
                 computeUpsidePercent (toNumber (shareValue (r_justified_pe results))) currentPrice;
               pbDiff =
                 computeUpsidePercent (toNumber (shareValue (r_justified_pb results))) currentPrice;
               weightedValue = weighted_average results;
               weightedDiff = computeUpsidePercent (toNumber weightedValue) currentPrice
           in seq [setContent ''fcfe-result'' (formatCurrency (shareValue (r_fcfe results))),
                   setContent ''fcfe-diff'' (signedPercent fcfeDiff),
                   setClassName ''fcfe-diff'' (diffClass fcfeDiff),
                   setContent ''fcff-result'' (formatCurrency (shareValue (r_fcff results))),
                   setContent ''fcff-diff'' (signedPercent fcffDiff),
                   setClassName ''fcff-diff'' (diffClass fcffDiff),
                   setContent ''pe-result'' (formatCurrency (shareValue (r_justified_pe results))),
                   setContent ''pe-diff'' (signedPercent peDiff),
                   setClassName ''pe-diff'' (diffClass peDiff),
                   setContent ''pb-result'' (formatCurrency (shareValue (r_justified_pb results))),
                   setContent ''pb-diff'' (signedPercent pbDiff),
                   setClassName ''pb-diff'' (diffClass pbDiff),
                   setContent ''weighted-result'' (formatCurrency weightedValue),
                   setContent ''weighted-diff'' (signedPercent weightedDiff),
                   setClassName ''weighted-diff'' (diffClass weightedDiff),
                   safeUpdateElement ''target-price'' (formatCurrency weightedValue),
                   safeUpdateElement ''summary-potential'' [Fixed weightedDiff 1, Lit ''%''],
                   safeUpdateElement ''return-value'' [Fixed weightedDiff 1, Lit ''%''],
                   updateModelDetails] s)))"

section \<open>Loading company data\<close>

text \<open>
  What \<open>await fetch(...)\<close> yields: a rejection (a network failure is a TypeError,
  an abort by the 15 second timer an AbortError), or a response with its \<open>ok\<close>
  flag, its status and its body; \<open>json\<close> is \<open>None\<close> when the body does not parse,
  and \<open>response.json()\<close> then throws a SyntaxError. The responses are parameters
  of the two actions; each action runs as one step, so responses that arrive out of
  order are not modelled.
\<close>

datatype 'a response = Response (ok: bool) (http_status: nat) (json: "'a option")

datatype 'a fetched = Rejected exn | Resolved "'a response"

definition syntax_error :: exn where
  "syntax_error = Exn ''SyntaxError'' [Lit ''Unexpected token in JSON'']"

text \<open>The \<open>try\<close> block of \<open>loadStockData\<close> (app.js 370-410).\<close>

definition load_try ::
  "string \<Rightarrow> stock_data fetched \<Rightarrow> chart_data fetched \<Rightarrow> app \<Rightarrow> outcome" where
  "load_try symbol stockFetch chartFetch s =
     (let s1 = s\<lparr>requests := requests s @
                  [GET (apiBaseUrl s @ ''/api/app-data/'' @ symbol @ ''?period=year'')]\<rparr>
      in case stockFetch of
           Rejected e \<Rightarrow> Threw e s1
         | Resolved stockResponse \<Rightarrow>
     (let s2 = s1\<lparr>requests := requests s1 @
                  [GET (apiBaseUrl s @ ''/api/historical-chart-data/'' @ symbol)]\<rparr>
      in case chartFetch of
           Rejected e \<Rightarrow> Threw e s2
         | Resolved chartResponse \<Rightarrow>
             if \<not> ok stockResponse then
               Threw (Exn ''Error''
                 [Lit (if http_status stockResponse = 404
                         then ''No data found for this stock symbol''
                       else if http_status stockResponse = 500
                         then ''Server error while loading data''
                       else ''Unable to connect to server'')]) s2
             else
     (case json stockResponse of
        None \<Rightarrow> Threw syntax_error s2
      | Some stock \<Rightarrow>
     (case (if ok chartResponse then json chartResponse
            else Some \<lparr>cd_success = False, cd_data = Some (\<lambda>k. None)\<rparr>) of
        None \<Rightarrow> Threw syntax_error s2
      | Some chartData \<Rightarrow>
          if \<not> sd_success stock then
            Threw (Exn ''Error''
              [Lit (strOr (sd_error stock) ''Unable to load data from server'')]) s2
          else
            seq [updateOverviewDisplay stock,
                 updateCharts,
                 showStatus [Lit ''Data loaded successfully''] ''success'']
              (s2\<lparr>stockData := Some stock,
                  currentStock := Some symbol,
                  historicalData :=
                    (if cd_success chartData then cd_data chartData else None)\<rparr>)))))"

text \<open>The \<open>catch\<close> block of \<open>loadStockData\<close> (app.js 412-425).\<close>

definition load_catch :: "exn \<Rightarrow> app \<Rightarrow> outcome" where
  "load_catch e =
     seq [(if exn_name e = ''AbortError''
           then showStatus [Lit ''Timeout - Please try again later.''] ''error''
           else showStatus ([Lit ''Data loading error: ''] @ exn_message e) ''error''),
          (\<lambda>s. Done (s\<lparr>stockData := None, currentStock := None, historicalData := None\<rparr>)),
          clearDisplay,
          clearCharts]"

text \<open>
  app.js 358-432. \<open>symbol\<close> is the content of the input \<open>stock-symbol\<close>, trimmed
  and in upper case.
\<close>

definition loadStockData ::
  "string \<Rightarrow> stock_data fetched \<Rightarrow> chart_data fetched \<Rightarrow> app \<Rightarrow> outcome" where
  "loadStockData symbol stockFetch chartFetch s =
     (if symbol = [] then showStatus [Lit ''Please enter a stock symbol''] ''error'' s
      else
        andThen (seq [showLoading True, showStatus [Lit ''Loading data...''] ''info''] s)
          (\<lambda>s. tryFinally
                  (tryCatch (load_try symbol stockFetch chartFetch s) load_catch)
                  (showLoading False)))"

section \<open>Calculating the valuation\<close>

text \<open>
  The object assigned to \<open>this.valuationResults\<close> (app.js 474-493); \<open>None\<close> when
  building it throws, which leaves the field as it was.
\<close>

definition buildResults :: "valuation_response \<Rightarrow> app \<Rightarrow> valuation_results option" where
  "buildResults result s =
     (case vr_valuations result of
        None \<Rightarrow> None
      | Some v \<Rightarrow>
     (case stockData s of
        None \<Rightarrow> None
      | Some stock \<Rightarrow>
     (case (if truthy (num stock ''shares_outstanding'')
            then Some (num stock ''shares_outstanding'')
            else (case vr_financial_data result of
                    None \<Rightarrow> None
                  | Some fin \<Rightarrow> Some (fin ''shares_outstanding''))) of
        None \<Rightarrow> None
      | Some shares \<Rightarrow>
          Some \<lparr>r_fcfe = \<lparr>shareValue = v_fcfe v,
                          equityValue = Num (js_mul (toNumber (v_fcfe v)) (toNumber shares))\<rparr>,
                r_fcff = \<lparr>shareValue = v_fcff v,
                          equityValue = Num (js_mul (toNumber (v_fcff v)) (toNumber shares))\<rparr>,
                r_justified_pe = \<lparr>shareValue = v_justified_pe v, equityValue = Undefined\<rparr>,
                r_justified_pb = \<lparr>shareValue = v_justified_pb v, equityValue = Undefined\<rparr>,
                weighted_average = v_weighted_average v,
                summary = vr_summary result,
                market_comparison = vr_market_comparison result,
                financial_data = vr_financial_data result\<rparr>)))"

text \<open>The \<open>try\<close> block of \<open>calculateValuation\<close> (app.js 441-500).\<close>

definition calc_try :: "string \<Rightarrow> valuation_response fetched \<Rightarrow> app \<Rightarrow> outcome" where
  "calc_try symbol fetchResult s0 =
     andThen (showStatus [Lit ''Calculating valuation models...''] ''info'' s0)
       (\<lambda>s.
     (let requestData =
            \<lparr>rq_revenueGrowth = revenueGrowth (assumptions s),
             rq_terminalGrowth = terminalGrowth (assumptions s),
             rq_wacc = wacc (assumptions s),
             rq_requiredReturn = requiredReturn (assumptions s),
             rq_taxRate = taxRate (assumptions s),
             rq_projectionYears = projectionYears (assumptions s),
             rq_roe = Fin 15,
             rq_payoutRatio = Fin 40,
             rq_modelWeights = modelWeights s\<rparr>;
          s1 = s\<lparr>requests := requests s @
                 [POST (apiBaseUrl s @ ''/api/valuation/'' @ symbol) requestData]\<rparr>
      in case fetchResult of
           Rejected e \<Rightarrow> Threw e s1
         | Resolved response \<Rightarrow>
             if \<not> ok response then
               Threw (Exn ''Error''
                 [Lit ''HTTP error! status: '', NumStr (Fin (real (http_status response)))]) s1
             else
     (case json response of
        None \<Rightarrow> Threw syntax_error s1
      | Some result \<Rightarrow>
          if \<not> vr_success result then
            Threw (Exn ''Error''
              [Lit (strOr (vr_error result) ''Valuation calculation failed'')]) s1
          else
     (case buildResults result s1 of
        None \<Rightarrow> Threw type_error s1
      | Some results \<Rightarrow>
          seq [updateValuationDisplay,
               updateWeightedResults,
               updateRecommendation,
               setDisabled ''export-report-btn'' False,
               showStatus [Lit ''Valuation calculation completed''] ''success'']
            (s1\<lparr>valuationResults := Some results\<rparr>)))))"

text \<open>app.js 435-507.\<close>

definition calculateValuation :: "valuation_response fetched \<Rightarrow> app \<Rightarrow> outcome" where
  "calculateValuation fetchResult s =
     (case currentStock s of
        None \<Rightarrow> showStatus [Lit ''Please load company data first''] ''error'' s
      | Some symbol \<Rightarrow>
          if symbol = [] then showStatus [Lit ''Please load company data first''] ''error'' s
          else
            tryCatch (calc_try symbol fetchResult s)
              (\<lambda>e. showStatus ([Lit ''Error calculating valuation: ''] @ exn_message e) ''error''))"

section \<open>The application at start\<close>

text \<open>
  The ids of the elements of the page (\<open>index.html\<close>), in document order. The
  script also addresses \<open>ev-ebitda-ratio\<close>, which the page does not have, through
  \<open>safeUpdateElement\<close> only.
\<close>

definition index_ids :: "string list" where
  "index_ids =
    [''theme-toggle-btn'', ''status-message'', ''stock-symbol'', ''load-data-btn'',
     ''overview'', ''company-symbol'', ''company-name'', ''company-sector'',
     ''company-exchange'', ''current-price'', ''market-cap'', ''eps'',
     ''book-value-per-share'', ''ev-ebitda'', ''revenue'', ''net-income'', ''ebitda'',
     ''roe'', ''roa'', ''debt-equity'', ''pe-ratio'', ''pb-ratio'', ''ps-ratio'',
     ''pcf-ratio'', ''asset-turnover'', ''inventory-turnover'',
     ''fixed-asset-turnover'', ''current-ratio'', ''quick-ratio'', ''cash-ratio'',
     ''interest-coverage'', ''gross-profit-margin'', ''ebit-margin'',
     ''net-profit-margin'', ''roe-roa-chart'', ''liquidity-chart'', ''pe-pb-chart'',
     ''nim-chart'', ''valuation'', ''assumptions-form'', ''revenue-growth'',
     ''terminal-growth'', ''wacc'', ''required-return'', ''tax-rate'',
     ''projection-years'', ''calculate-btn'', ''reset-assumptions-btn'',
     ''fcfe-weight'', ''fcfe-weight-value'', ''fcff-weight'', ''fcff-weight-value'',
     ''pe-weight'', ''pe-weight-value'', ''pb-weight'', ''pb-weight-value'',
     ''total-weight'', ''normalize-weights-btn'', ''fcfe-result'', ''fcfe-diff'',
     ''fcff-result'', ''fcff-diff'', ''pe-result'', ''pe-diff'', ''pb-result'',
     ''pb-diff'', ''weighted-result'', ''weighted-diff'', ''recommendation'',
     ''return-value'', ''summary'', ''summary-symbol'', ''summary-name'',
     ''summary-sector'', ''summary-exchange'', ''summary-price'',
     ''summary-market-cap'', ''summary-pe'', ''summary-pb'', ''fcfe-equity'',
     ''fcfe-share-value'', ''fcfe-market-diff'', ''fcff-ev'', ''fcff-equity'',
     ''fcff-share-value'', ''fcff-market-diff'', ''pe-justified-ratio'',
     ''pe-current-eps'', ''pe-share-value'', ''pe-market-diff'',
     ''pb-justified-ratio'', ''pb-current-bvps'', ''pb-share-value'',
     ''pb-market-diff'', ''target-price'', ''summary-potential'', ''confidence-level'',
     ''final-recommendation'', ''recommendation-reasoning'', ''export-report-btn'']"

definition index_page :: "string \<Rightarrow> element option" where
  "index_page =
     map_of (map (\<lambda>i. (i, \<lparr>content = [], className = [], disabled = False,
                            input_value = []\<rparr>)) index_ids)"

text \<open>
  The fields set by the constructor (app.js 10-33), with the two charts as
  \<open>setupCharts\<close> creates them: no labels, two and three empty datasets.
\<close>

definition new_app :: app where
  "new_app =
     \<lparr>currentStock = None,
      stockData = None,
      historicalData = None,
      assumptions =
        \<lparr>revenueGrowth = Fin 8, terminalGrowth = Fin 3, wacc = Fin (21 / 2),
         requiredReturn = Fin 12, taxRate = Fin 20, projectionYears = Fin 5\<rparr>,
      modelWeights =
        \<lparr>fcfe = Fin 25, fcff = Fin 25, justified_pe = Fin 25, justified_pb = Fin 25\<rparr>,
      valuationResults = None,
      apiBaseUrl = ''http://localhost:5000'',
      charts =
        [''roeRoa'' \<mapsto> \<lparr>labels = Some [], datasets = [Some [], Some []]\<rparr>,
         ''liquidity'' \<mapsto> \<lparr>labels = Some [], datasets = [Some [], Some [], Some []]\<rparr>],
      document = index_page,
      requests = []\<rparr>"

section \<open>The weighted average\<close>

text \<open>
  Modelled from the spec: \<open>computeWeightedAverage(results, weights)\<close>. The script
  never computes this sum: it keeps the \<open>weighted_average\<close> that the Model Engine
  returns (app.js 489), and the source of the engine is not among the sources. Each
  weight is a percentage, an absent per-share value contributes zero, and the four
  contributions are added without renormalising the weights.
\<close>

definition contribution :: "jsval \<Rightarrow> jsnum \<Rightarrow> jsnum" where
  "contribution v w =
     (if v = Undefined then Fin 0 else js_mul (toNumber v) (js_div w (Fin 100)))"

definition computeWeightedAverage :: "valuation_results \<Rightarrow> weights \<Rightarrow> jsnum" where
  "computeWeightedAverage results w =
     js_add (js_add (js_add (contribution (shareValue (r_fcfe results)) (fcfe w))
                            (contribution (shareValue (r_fcff results)) (fcff w)))
                    (contribution (shareValue (r_justified_pe results)) (justified_pe w)))
            (contribution (shareValue (r_justified_pb results)) (justified_pb w))"

text \<open>A finite per-share value, or zero for an absent one.\<close>

definition valueOrZero :: "jsval \<Rightarrow> real" where
  "valueOrZero v = (case v of Num (Fin x) \<Rightarrow> x | _ \<Rightarrow> 0)"

section \<open>Frame conditions\<close>

text \<open>
  \<open>touches I s s'\<close>: the state \<open>s'\<close> is \<open>s\<close> except for the elements of the page
  whose id is in \<open>I\<close>, and the page of \<open>s'\<close> has the same ids as that of \<open>s\<close>.
\<close>

definition touches :: "string set \<Rightarrow> app \<Rightarrow> app \<Rightarrow> bool" where
  "touches I s s' =
     (\<exists>d. s' = s\<lparr>document := d\<rparr> \<and> (\<forall>i. (d i = None) = (document s i = None)) \<and>
          (\<forall>i. i \<notin> I \<longrightarrow> d i = document s i))"

text \<open>A statement that changes nothing but elements in \<open>I\<close>, whether it throws or not.\<close>

definition page_only :: "string set \<Rightarrow> (app \<Rightarrow> outcome) \<Rightarrow> bool" where
  "page_only I f = (\<forall>s. touches I s (state_of (f s)))"

text \<open>A statement that runs to its end on every page that has the ids in \<open>I\<close>.\<close>

definition completes :: "string set \<Rightarrow> (app \<Rightarrow> outcome) \<Rightarrow> bool" where
  "completes I f = (\<forall>s. (\<forall>i\<in>I. document s i \<noteq> None) \<longrightarrow> \<not> threw (f s))"

section \<open>What a change of weights runs\<close>

text \<open>
  The statements that \<open>updateModelWeights\<close> and \<open>normalizeWeights\<close> share
  (app.js 298-304 and 338-344).
\<close>

definition rerender :: "app \<Rightarrow> outcome" where
  "rerender = seq [updateWeightDisplay, updateTotalWeight,
              (\<lambda>s. if valuationResults s \<noteq> None
                    then seq [updateWeightedResults, updateRecommendation] s
                    else Done s)]"

text \<open>
  The page shows the held results: the weighted average as the session holds it,
  the upside of that value against the current price, and the verdict \<open>v\<close>.
\<close>

definition shows_held :: "valuation_results \<Rightarrow> stock_data \<Rightarrow> verdict \<Rightarrow> app \<Rightarrow> bool" where
  "shows_held results stock v s =
     (map_option content (document s ''weighted-result'') =
        Some (formatCurrency (weighted_average results)) \<and>
      map_option content (document s ''weighted-diff'') =
        Some (signedPercent (computeUpsidePercent (toNumber (weighted_average results))
                               (toNumber (num stock ''current_price'')))) \<and>
      map_option content (document s ''recommendation'') =
        Some (statusSpan (status v) (recommendation v)) \<and>
      map_option content (document s ''final-recommendation'') =
        Some (statusSpan (status v) (recommendation v)))"

section \<open>Failing responses\<close>

text \<open>
  The answers to the two requests of \<open>loadStockData\<close> on which its \<open>try\<close> block
  throws before it assigns anything: either request is rejected (network failure,
  abort by the timer), the status of the stock response is not OK, a body that is
  read does not parse, or the stock data say \<open>success: false\<close>.
\<close>

definition load_fails :: "stock_data fetched \<Rightarrow> chart_data fetched \<Rightarrow> bool" where
  "load_fails stockFetch chartFetch =
     (case stockFetch of
        Rejected e \<Rightarrow> True
      | Resolved stockResponse \<Rightarrow>
          (case chartFetch of
             Rejected e \<Rightarrow> True
           | Resolved chartResponse \<Rightarrow>
               \<not> ok stockResponse \<or>
               (case json stockResponse of
                  None \<Rightarrow> True
                | Some stock \<Rightarrow>
                    (ok chartResponse \<and> json chartResponse = None) \<or> \<not> sd_success stock)))"

text \<open>
  The answers to the request of \<open>calculateValuation\<close> on which its \<open>try\<close> block
  throws before the assignment to \<open>valuationResults\<close>: a rejection, a status that
  is not OK, a body that does not parse, or \<open>success: false\<close>.
\<close>

definition calc_fails :: "valuation_response fetched \<Rightarrow> bool" where
  "calc_fails fetchResult =
     (case fetchResult of
        Rejected e \<Rightarrow> True
      | Resolved response \<Rightarrow>
          \<not> ok response \<or>
          (case json response of None \<Rightarrow> True | Some result \<Rightarrow> \<not> vr_success result))"

section \<open>A sample session\<close>

text \<open>
  A stock at 100000 a share with 1000 shares; the answer of the engine with the
  four per-share values of the specification's examples and their weighted average
  for equal weights; the results that \<open>calculateValuation\<close> builds from that
  answer; a session that has loaded the stock; and the session that
  \<open>calculateValuation\<close> leaves when it receives the answer.
\<close>

definition vnm_stock :: stock_data where
  "vnm_stock =
     \<lparr>sd_success = True, sd_error = None,
      str = [''name'' \<mapsto> ''Vinamilk'', ''symbol'' \<mapsto> ''VNM''],
      num = (\<lambda>k. Undefined)(''current_price'' := Num (Fin 100000),
                             ''shares_outstanding'' := Num (Fin 1000))\<rparr>"

definition vnm_response :: valuation_response where
  "vnm_response =
     \<lparr>vr_success = True, vr_error = None,
      vr_valuations = Some \<lparr>v_fcfe = Num (Fin 100000), v_fcff = Num (Fin 110000),
        v_justified_pe = Num (Fin 90000), v_justified_pb = Num (Fin 95000),
        v_weighted_average = Num (Fin 98750)\<rparr>,
      vr_financial_data = Some (\<lambda>k. Undefined),
      vr_market_comparison = None,
      vr_summary = None\<rparr>"

definition vnm_results :: valuation_results where
  "vnm_results =
     \<lparr>r_fcfe = \<lparr>shareValue = Num (Fin 100000), equityValue = Num (Fin 100000000)\<rparr>,
      r_fcff = \<lparr>shareValue = Num (Fin 110000), equityValue = Num (Fin 110000000)\<rparr>,
      r_justified_pe = \<lparr>shareValue = Num (Fin 90000), equityValue = Undefined\<rparr>,
      r_justified_pb = \<lparr>shareValue = Num (Fin 95000), equityValue = Undefined\<rparr>,
      weighted_average = Num (Fin 98750),
      summary = None,
      market_comparison = None,
      financial_data = Some (\<lambda>k. Undefined)\<rparr>"

definition loaded_session :: app where
  "loaded_session = new_app\<lparr>currentStock := Some ''VNM'', stockData := Some vnm_stock\<rparr>"

definition held_session :: app where
  "held_session =
     state_of (calculateValuation (Resolved (Response True 200 (Some vnm_response)))
       loaded_session)"

text \<open>The same session with a current price of zero.\<close>

definition zero_price_session :: app where
  "zero_price_session =
     held_session\<lparr>stockData :=
       Some (vnm_stock\<lparr>num := (num vnm_stock)(''current_price'' := Num (Fin 0))\<rparr>)\<rparr>"

text \<open>Formatters that print nothing, to run \<open>render\<close> on an instance.\<close>

definition blank_builtins :: builtins where
  "blank_builtins = \<lparr>toFixed = (\<lambda>n d. []), formatVND = (\<lambda>n. []), numToString = (\<lambda>n. [])\<rparr>"

text \<open>The slider of the FCFE weight moved to 50.\<close>

definition fcfe_to_50 :: event where
  "fcfe_to_50 = \<lparr>target_id = ''fcfe-weight'', target_value = Fin 50\<rparr>"


definition thirds_weights :: weights where
  "thirds_weights =
     \<lparr>fcfe = Fin 0, fcff = round64 (333 / 10), justified_pe = round64 (333 / 10),
      justified_pb = round64 (333 / 10)\<rparr>"

text \<open>The sample results with a recommendation supplied by the engine.\<close>

definition engine_results :: valuation_results where
  "engine_results =
     vnm_results\<lparr>market_comparison := Some \<lparr>mc_recommendation = Some ''STRONG SELL''\<rparr>\<rparr>"

text \<open>The sample results without a value for FCFE.\<close>

definition partial_results :: valuation_results where
  "partial_results =
     vnm_results\<lparr>r_fcfe := \<lparr>shareValue = Undefined, equityValue = Num NaN\<rparr>\<rparr>"

section \<open>Frame lemmas\<close>

text \<open>
  The relation \<open>touches\<close> is reflexive and transitive, and each statement that
  writes to an element touches that element only.
\<close>

lemma touches_refl: "touches I s s"
  unfolding touches_def by (rule exI [of _ "document s"]) simp

lemma touches_trans: "touches I s s' \<Longrightarrow> touches J s' s'' \<Longrightarrow> touches (I \<union> J) s s''"
  unfolding touches_def by (elim exE conjE, rule_tac x = da in exI) simp

lemma touches_mono: "touches I s s' \<Longrightarrow> I \<subseteq> J \<Longrightarrow> touches J s s'"
  unfolding touches_def by blast

lemma touches_fields:
  assumes "touches I s s'"
  shows "currentStock s' = currentStock s" "stockData s' = stockData s"
    "historicalData s' = historicalData s" "assumptions s' = assumptions s"
    "modelWeights s' = modelWeights s" "valuationResults s' = valuationResults s"
    "apiBaseUrl s' = apiBaseUrl s" "charts s' = charts s" "requests s' = requests s"
    "(document s' i = None) = (document s i = None)"
    "i \<notin> I \<Longrightarrow> document s' i = document s i"
  using assms unfolding touches_def by auto

lemma touches_upd:
  "document s i = Some e \<Longrightarrow> touches {i} s (s\<lparr>document := (document s)(i \<mapsto> e')\<rparr>)"
  unfolding touches_def by (rule exI [of _ "(document s)(i \<mapsto> e')"]) auto

lemma touches_requests:
  "touches I s s' \<Longrightarrow> touches I (s\<lparr>requests := rq\<rparr>) (s'\<lparr>requests := rq\<rparr>)"
  unfolding touches_def by (elim exE conjE, rule_tac x = d in exI) simp

lemma touches_held:
  "touches I s s' \<Longrightarrow>
   touches I (s\<lparr>requests := rq, valuationResults := v\<rparr>) (s'\<lparr>requests := rq, valuationResults := v\<rparr>)"
  unfolding touches_def by (elim exE conjE, rule_tac x = d in exI) simp

lemma setContent_touches: "touches {i} s (state_of (setContent i t s))"
  unfolding setContent_def by (cases "document s i") (simp_all add: touches_refl touches_upd)

lemma setClassName_touches: "touches {i} s (state_of (setClassName i c s))"
  unfolding setClassName_def by (cases "document s i") (simp_all add: touches_refl touches_upd)

lemma setDisabled_touches: "touches {i} s (state_of (setDisabled i b s))"
  unfolding setDisabled_def by (cases "document s i") (simp_all add: touches_refl touches_upd)

lemma setInputValue_touches: "touches {i} s (state_of (setInputValue i t s))"
  unfolding setInputValue_def by (cases "document s i") (simp_all add: touches_refl touches_upd)

lemma safeUpdateElement_touches: "touches {i} s (state_of (safeUpdateElement i t s))"
  unfolding safeUpdateElement_def by (cases "document s i") (simp_all add: touches_refl touches_upd)

subsection \<open>Sequences of statements\<close>

lemma page_onlyD: "page_only I f \<Longrightarrow> touches I s (state_of (f s))"
  unfolding page_only_def by blast

lemma page_only_mono: "page_only I f \<Longrightarrow> I \<subseteq> J \<Longrightarrow> page_only J f"
  unfolding page_only_def using touches_mono by blast

lemma andThen_touches:
  assumes "touches I s (state_of r)" and "\<And>s'. touches J s' (state_of (f s'))"
  shows "touches (I \<union> J) s (state_of (andThen r f))"
proof (cases r)
  case (Done s')
  with assms(1) have "touches I s s'" by simp
  from touches_trans [OF this assms(2)] show ?thesis using Done by (simp add: andThen_def)
next
  case (Threw e s')
  with assms(1) have "touches I s s'" by simp
  then show ?thesis using Threw by (simp add: andThen_def touches_mono)
qed

lemma seq_touches:
  "(\<And>f. f \<in> set fs \<Longrightarrow> page_only I f) \<Longrightarrow> touches I s (state_of (seq fs s))"
proof (induction fs arbitrary: s)
  case Nil
  show ?case by (simp add: touches_refl)
next
  case (Cons f fs)
  have a: "touches I s (state_of (f s))" using Cons.prems [of f] by (simp add: page_onlyD)
  have b: "\<And>s'. touches I s' (state_of (seq fs s'))" using Cons by simp
  from andThen_touches [OF a b] show ?case by simp
qed

lemma page_only_seq: "(\<And>f. f \<in> set fs \<Longrightarrow> page_only I f) \<Longrightarrow> page_only I (seq fs)"
  unfolding page_only_def using seq_touches page_only_def by blast

lemma page_only_seq_Nil: "page_only I (seq [])"
  by (simp add: page_only_def touches_refl)

lemma page_only_seq_Cons:
  "page_only I f \<Longrightarrow> page_only I (seq fs) \<Longrightarrow> page_only I (seq (f # fs))"
  unfolding page_only_def
  using andThen_touches [where I = I and J = I] by (metis seq.simps(2) sup.idem)

lemma page_only_setContent: "i \<in> I \<Longrightarrow> page_only I (setContent i t)"
  unfolding page_only_def using setContent_touches touches_mono by (metis empty_subsetI insert_subset)

lemma page_only_setClassName: "i \<in> I \<Longrightarrow> page_only I (setClassName i t)"
  unfolding page_only_def using setClassName_touches touches_mono by (metis empty_subsetI insert_subset)

lemma page_only_setDisabled: "i \<in> I \<Longrightarrow> page_only I (setDisabled i t)"
  unfolding page_only_def using setDisabled_touches touches_mono by (metis empty_subsetI insert_subset)

lemma page_only_setInputValue: "i \<in> I \<Longrightarrow> page_only I (setInputValue i t)"
  unfolding page_only_def using setInputValue_touches touches_mono by (metis empty_subsetI insert_subset)

lemma page_only_safeUpdateElement: "i \<in> I \<Longrightarrow> page_only I (safeUpdateElement i t)"
  unfolding page_only_def using safeUpdateElement_touches touches_mono by (metis empty_subsetI insert_subset)

lemmas page_only_intros =
  page_only_setContent page_only_setClassName page_only_setDisabled page_only_setInputValue
  page_only_safeUpdateElement

lemma completesD:
  assumes "completes I f" and "\<forall>i\<in>I. document (s::app) i \<noteq> None"
  shows "\<exists>s'. f s = Done s'"
proof -
  from assms have "\<not> threw (f s)" unfolding completes_def by blast
  then show ?thesis by (cases "f s") simp_all
qed

lemma completes_setContent: "i \<in> I \<Longrightarrow> completes I (setContent i t)"
  unfolding completes_def setContent_def by (auto split: option.splits)

lemma completes_setClassName: "i \<in> I \<Longrightarrow> completes I (setClassName i t)"
  unfolding completes_def setClassName_def by (auto split: option.splits)

lemma completes_setDisabled: "i \<in> I \<Longrightarrow> completes I (setDisabled i t)"
  unfolding completes_def setDisabled_def by (auto split: option.splits)

lemma completes_setInputValue: "i \<in> I \<Longrightarrow> completes I (setInputValue i t)"
  unfolding completes_def setInputValue_def by (auto split: option.splits)

lemma completes_safeUpdateElement: "completes I (safeUpdateElement i t)"
  unfolding completes_def safeUpdateElement_def by (auto split: option.splits)

lemma completes_seq:
  assumes "\<And>f. f \<in> set fs \<Longrightarrow> page_only J f \<and> completes I f"
  shows "completes I (seq fs)"
  using assms
proof (induction fs)
  case Nil
  show ?case by (simp add: completes_def)
next
  case (Cons f fs)
  have f: "page_only J f" "completes I f" using Cons.prems [of f] by simp_all
  have fs: "completes I (seq fs)" using Cons by simp
  show ?case
    unfolding completes_def
  proof (intro allI impI)
    fix s :: app assume ex: "\<forall>i\<in>I. document s i \<noteq> None"
    then obtain s' where s': "f s = Done s'" using completesD [OF f(2)] by blast
    from page_onlyD [OF f(1), of s] s' have "touches J s s'" by simp
    then have "\<forall>i\<in>I. document s' i \<noteq> None" using ex touches_fields(10) by blast
    then have "\<not> threw (seq fs s')" using fs unfolding completes_def by blast
    then show "\<not> threw (seq (f # fs) s)" using s' by (simp add: andThen_def)
  qed
qed

lemmas completes_intros =
  completes_setContent completes_setClassName completes_setDisabled completes_setInputValue
  completes_safeUpdateElement

lemma run_page_only:
  assumes "page_only J f" "completes I f" "\<forall>i\<in>I. document (s::app) i \<noteq> None"
  obtains s' where "f s = Done s'" "touches J s s'"
proof -
  from completesD [OF assms(2)] assms(3) obtain s' where s': "f s = Done s'" by blast
  with page_onlyD [OF assms(1), of s] have "touches J s s'" by simp
  with s' that show thesis by blast
qed

lemma seq_append: "seq (xs @ ys) s = andThen (seq xs s) (seq ys)"
  by (induction xs arbitrary: s) (auto simp add: andThen_def split: outcome.splits)

lemma state_of_tryFinally: "state_of (tryFinally r f) = state_of (f (state_of r))"
  unfolding tryFinally_def by (cases r; cases "f (state_of r)") simp_all

subsection \<open>The status banner and the load button\<close>

lemma showStatus_page_only: "page_only {''status-message''} (showStatus m t)"
  unfolding showStatus_def by (rule page_only_seq) (auto intro: page_only_intros)

lemma showLoading_page_only: "page_only {''load-data-btn''} (showLoading b)"
  unfolding showLoading_def by (auto intro!: page_only_seq intro: page_only_intros)

lemma showStatus_completes: "completes {''status-message''} (showStatus m t)"
  unfolding showStatus_def
  by (rule completes_seq [where J = "{''status-message''}"])
     (auto intro: page_only_intros completes_intros)

lemma showLoading_completes: "completes {''load-data-btn''} (showLoading b)"
  unfolding showLoading_def
  by (auto intro!: completes_seq [where J = "{''load-data-btn''}"]
           intro: page_only_intros completes_intros)


section \<open>Lemmas on a failed load\<close>

text \<open>
  \<open>clearDisplay\<close> runs to its end on a page that has the three elements it
  addresses without a guard, and ends by dropping the held results; \<open>clearCharts\<close>
  changes the charts only; a failing answer makes the \<open>try\<close> block throw with
  nothing but the log of requests changed.
\<close>

lemma clearDisplay_effect:
  assumes "\<forall>i\<in>{''recommendation'', ''final-recommendation'', ''export-report-btn''}.
             document (s::app) i \<noteq> None"
  shows "\<exists>s1. touches UNIV s s1 \<and> clearDisplay s = Done (s1\<lparr>valuationResults := None\<rparr>)"
proof -
  let ?I = "{''recommendation'', ''final-recommendation'', ''export-report-btn''}"
  let ?P = "map (\<lambda>i. safeUpdateElement i [Lit ''--'']) clearedIds @
          [setContent ''recommendation'' [Lit ''<span class=\"status status--warning\">--</span>''],
           setContent ''final-recommendation''
             [Lit ''<span class=\"status status--warning\">--</span>''],
           safeUpdateElement ''recommendation-reasoning''
             [Lit ''Please load company data to receive investment recommendations.''],
           safeUpdateElement ''confidence-level'' [Lit ''--''],
           setDisabled ''export-report-btn'' True]"
  have split: "clearDisplay s = andThen (seq ?P s) (seq [\<lambda>s. Done (s\<lparr>valuationResults := None\<rparr>)])"
    unfolding clearDisplay_def using seq_append [of ?P "[\<lambda>s. Done (s\<lparr>valuationResults := None\<rparr>)]" s]
    by simp
  have each: "\<And>f. f \<in> set ?P \<Longrightarrow> page_only UNIV f \<and> completes ?I f"
    by (auto intro: page_only_intros completes_intros)
  have po: "page_only UNIV (seq ?P)" using each by (blast intro: page_only_seq)
  have co: "completes ?I (seq ?P)" using each by (rule completes_seq)
  from run_page_only [OF po co assms] obtain s1 where
    s1: "seq ?P s = Done s1" "touches UNIV s s1" by blast
  show ?thesis using s1 split by (auto simp add: andThen_def)
qed

lemma clearCharts_fields:
  "\<exists>c. state_of (clearCharts s) = s\<lparr>charts := c\<rparr>"
proof -
  have one: "\<And>n s. \<exists>c. state_of (clearChart n s) = s\<lparr>charts := c\<rparr>"
  proof -
    fix n s
    show "\<exists>c. state_of (clearChart n s) = s\<lparr>charts := c\<rparr>"
      unfolding clearChart_def
      by (cases "charts s n") (auto intro: exI [of _ "charts s"])
  qed
  from one [of "''roeRoa''" s] obtain c1 where
    c1: "state_of (clearChart ''roeRoa'' s) = s\<lparr>charts := c1\<rparr>" by blast
  show ?thesis
  proof (cases "clearChart ''roeRoa'' s")
    case (Threw e s')
    then show ?thesis using c1 by (auto simp add: clearCharts_def andThen_def)
  next
    case (Done s')
    from one [of "''liquidity''" s'] obtain c2 where
      c2: "state_of (clearChart ''liquidity'' s') = s'\<lparr>charts := c2\<rparr>" by blast
    have "state_of (clearCharts s) = state_of (clearChart ''liquidity'' s')"
      using Done by (cases "clearChart ''liquidity'' s'") (simp_all add: clearCharts_def andThen_def)
    then show ?thesis using c1 c2 Done by auto
  qed
qed

lemma load_try_fails:
  assumes "load_fails stockFetch chartFetch"
  shows "\<exists>e rq. load_try symbol stockFetch chartFetch s = Threw e (s\<lparr>requests := rq\<rparr>)"
proof (cases stockFetch)
  case (Rejected e)
  then show ?thesis by (simp add: load_try_def Let_def) blast
next
  case sr: (Resolved stockResponse)
  show ?thesis
  proof (cases chartFetch)
    case (Rejected e)
    then show ?thesis using sr by (simp add: load_try_def Let_def) blast
  next
    case cr: (Resolved chartResponse)
    show ?thesis
    proof (cases "ok stockResponse")
      case False
      then show ?thesis using sr cr by (simp add: load_try_def Let_def) blast
    next
      case okS: True
      show ?thesis
      proof (cases "json stockResponse")
        case None
        then show ?thesis using sr cr okS by (simp add: load_try_def Let_def) blast
      next
        case stock: (Some stock)
        from assms sr cr okS stock
        have f: "(ok chartResponse \<and> json chartResponse = None) \<or> \<not> sd_success stock"
          by (simp add: load_fails_def)
        show ?thesis
        proof (cases "ok chartResponse \<and> json chartResponse = None")
          case True
          then show ?thesis using sr cr okS stock by (simp add: load_try_def Let_def) blast
        next
          case False
          with f have ns: "\<not> sd_success stock" by blast
          show ?thesis
          proof (cases "ok chartResponse")
            case True
            with False obtain cd where "json chartResponse = Some cd" by auto
            then show ?thesis using sr cr okS stock ns True
              by (simp add: load_try_def Let_def) blast
          next
            case False
            then show ?thesis using sr cr okS stock ns
              by (simp add: load_try_def Let_def) blast
          qed
        qed
      qed
    qed
  qed
qed

lemma load_catch_clears:
  assumes "\<forall>i\<in>{''status-message'', ''recommendation'', ''final-recommendation'',
               ''export-report-btn''}. document (s::app) i \<noteq> None"
  shows "\<exists>d c. state_of (load_catch e s) =
            s\<lparr>stockData := None, currentStock := None, historicalData := None,
              valuationResults := None, document := d, charts := c\<rparr> \<and>
            (\<forall>i. (d i = None) = (document s i = None))"
proof -
  let ?st = "(if exn_name e = ''AbortError''
           then showStatus [Lit ''Timeout - Please try again later.''] ''error''
           else showStatus ([Lit ''Data loading error: ''] @ exn_message e) ''error'')"
  have po: "page_only {''status-message''} ?st" by (simp add: showStatus_page_only)
  have co: "completes {''status-message''} ?st" by (simp add: showStatus_completes)
  from run_page_only [OF po co] assms obtain s1 where
    s1: "?st s = Done s1" "touches {''status-message''} s s1" by auto
  let ?s2 = "s1\<lparr>stockData := None, currentStock := None, historicalData := None\<rparr>"
  have ex2: "\<forall>i\<in>{''recommendation'', ''final-recommendation'', ''export-report-btn''}.
      document ?s2 i \<noteq> None"
    using assms touches_fields(10) [OF s1(2)] by simp
  from clearDisplay_effect [OF ex2] obtain s3 where
    s3: "touches UNIV ?s2 s3" "clearDisplay ?s2 = Done (s3\<lparr>valuationResults := None\<rparr>)" by blast
  from clearCharts_fields [of "s3\<lparr>valuationResults := None\<rparr>"] obtain c where
    c: "state_of (clearCharts (s3\<lparr>valuationResults := None\<rparr>)) = s3\<lparr>valuationResults := None, charts := c\<rparr>"
    by auto
  have run: "state_of (load_catch e s) = s3\<lparr>valuationResults := None, charts := c\<rparr>"
    unfolding load_catch_def using s1(1) s3(2) c
    by (cases "clearCharts (s3\<lparr>valuationResults := None\<rparr>)") (simp_all add: andThen_def)
  from s1(2) obtain d1 where d1: "s1 = s\<lparr>document := d1\<rparr>"
    "\<forall>i. (d1 i = None) = (document s i = None)" unfolding touches_def by blast
  from s3(1) obtain d3 where d3: "s3 = ?s2\<lparr>document := d3\<rparr>"
    "\<forall>i. (d3 i = None) = (document ?s2 i = None)" unfolding touches_def by blast
  show ?thesis
    apply (rule exI [of _ d3], rule exI [of _ c])
    using run d1 d3 by simp
qed

section \<open>Lemmas on the display\<close>

text \<open>
  What each display statement touches, and what it leaves in the elements that the
  claims are about.
\<close>

lemma updateWeightDisplay_page_only:
  "page_only {''fcfe-weight-value'', ''fcff-weight-value'', ''pe-weight-value'', ''pb-weight-value''}
     updateWeightDisplay"
  unfolding page_only_def updateWeightDisplay_def
  by (intro allI seq_touches) (auto intro: page_only_intros)

lemma updateWeightDisplay_completes:
  "completes {''fcfe-weight-value'', ''fcff-weight-value'', ''pe-weight-value'', ''pb-weight-value''}
     updateWeightDisplay"
proof -
  let ?I = "{''fcfe-weight-value'', ''fcff-weight-value'', ''pe-weight-value'', ''pb-weight-value''}"
  have "\<And>s fs. fs = [setContent ''fcfe-weight-value'' [Fixed (fcfe (modelWeights s)) 1, Lit ''%''],
          setContent ''fcff-weight-value'' [Fixed (fcff (modelWeights s)) 1, Lit ''%''],
          setContent ''pe-weight-value'' [Fixed (justified_pe (modelWeights s)) 1, Lit ''%''],
          setContent ''pb-weight-value'' [Fixed (justified_pb (modelWeights s)) 1, Lit ''%'']]
        \<Longrightarrow> completes ?I (seq fs)"
    by (rule completes_seq [where J = ?I]) (auto intro: page_only_intros completes_intros)
  then show ?thesis unfolding completes_def updateWeightDisplay_def by blast
qed

lemma updateTotalWeight_page_only: "page_only {''total-weight''} updateTotalWeight"
  unfolding page_only_def updateTotalWeight_def Let_def
  by (intro allI seq_touches) (auto intro: page_only_intros)

lemma updateTotalWeight_effect:
  assumes "document (s::app) ''total-weight'' \<noteq> None"
  shows "\<exists>s'. updateTotalWeight s = Done s' \<and> touches {''total-weight''} s s' \<and>
     map_option className (document s' ''total-weight'') =
       Some (if js_lt (js_abs (js_sub64 (totalWeight (modelWeights s)) (Fin 100))) (round64 (1 / 10))
             then ''weight-total-correct'' else ''weight-total-incorrect'') \<and>
     map_option content (document s' ''total-weight'') = Some [Fixed (totalWeight (modelWeights s)) 1]"
proof -
  from assms obtain e where e: "document s ''total-weight'' = Some e" by blast
  have run: "\<exists>s'. updateTotalWeight s = Done s' \<and>
     map_option className (document s' ''total-weight'') =
       Some (if js_lt (js_abs (js_sub64 (totalWeight (modelWeights s)) (Fin 100))) (round64 (1 / 10))
             then ''weight-total-correct'' else ''weight-total-incorrect'') \<and>
     map_option content (document s' ''total-weight'') = Some [Fixed (totalWeight (modelWeights s)) 1]"
    using e by (simp add: updateTotalWeight_def Let_def setContent_def setClassName_def andThen_def)
  then obtain s' where s': "updateTotalWeight s = Done s'" by blast
  with page_onlyD [OF updateTotalWeight_page_only, of s] have "touches {''total-weight''} s s'" by simp
  with run s' show ?thesis by auto
qed

lemma updateWeightedResults_page_only:
  "page_only {''weighted-result'', ''weighted-diff'', ''target-price'', ''summary-potential'',
     ''return-value''} updateWeightedResults"
  unfolding page_only_def
proof
  fix s
  let ?I = "{''weighted-result'', ''weighted-diff'', ''target-price'', ''summary-potential'',
     ''return-value''}"
  show "touches ?I s (state_of (updateWeightedResults s))"
  proof (cases "valuationResults s")
    case None
    then show ?thesis by (simp add: updateWeightedResults_def touches_refl)
  next
    case r: (Some results)
    show ?thesis
    proof (cases "stockData s")
      case None
      then show ?thesis using r by (simp add: updateWeightedResults_def touches_refl)
    next
      case (Some stock)
      have "\<And>a b c d e f. page_only ?I (seq [setContent ''weighted-result'' a,
                   setContent ''weighted-diff'' b,
                   setClassName ''weighted-diff'' c,
                   safeUpdateElement ''target-price'' d,
                   safeUpdateElement ''summary-potential'' e,
                   safeUpdateElement ''return-value'' f])"
        by (intro page_only_seq_Cons page_only_seq_Nil page_only_intros) simp_all
      then show ?thesis
        unfolding updateWeightedResults_def Let_def
        by (simp only: r Some option.case page_onlyD)
    qed
  qed
qed

lemma updateWeightedResults_effect:
  assumes "valuationResults s = Some results" and "stockData s = Some stock"
    and "document s ''weighted-result'' \<noteq> None" and "document s ''weighted-diff'' \<noteq> None"
  shows "\<exists>s'. updateWeightedResults s = Done s' \<and>
     map_option content (document s' ''weighted-result'') =
       Some (formatCurrency (weighted_average results)) \<and>
     map_option content (document s' ''weighted-diff'') =
       Some (signedPercent (computeUpsidePercent (toNumber (weighted_average results))
                              (toNumber (num stock ''current_price'')))) \<and>
     map_option className (document s' ''weighted-diff'') =
       Some (diffClass (computeUpsidePercent (toNumber (weighted_average results))
                              (toNumber (num stock ''current_price''))))"
proof -
  from assms obtain e1 e2 where e: "document s ''weighted-result'' = Some e1"
    "document s ''weighted-diff'' = Some e2" by blast
  show ?thesis
    using assms(1,2) e
    by (auto simp add: updateWeightedResults_def Let_def setContent_def setClassName_def
          safeUpdateElement_def andThen_def split: option.splits)
qed

lemma updateRecommendation_page_only:
  "page_only {''recommendation'', ''final-recommendation'', ''recommendation-reasoning'',
     ''confidence-level''} updateRecommendation"
  unfolding page_only_def
proof
  fix s
  let ?I = "{''recommendation'', ''final-recommendation'', ''recommendation-reasoning'',
     ''confidence-level''}"
  have sq: "\<And>a b c d. page_only ?I (seq [setContent ''recommendation'' a,
               setContent ''final-recommendation'' b,
               safeUpdateElement ''recommendation-reasoning'' c,
               safeUpdateElement ''confidence-level'' d])"
    by (intro page_only_seq_Cons page_only_seq_Nil page_only_intros) simp_all
  show "touches ?I s (state_of (updateRecommendation s))"
  proof (cases "valuationResults s")
    case None
    then show ?thesis by (simp add: updateRecommendation_def touches_refl)
  next
    case r: (Some results)
    show ?thesis
    proof (cases "stockData s")
      case None
      then show ?thesis using r by (simp add: updateRecommendation_def touches_refl)
    next
      case st: (Some stock)
      show ?thesis
      proof (cases "chooseRecommendation results (num stock ''current_price'')")
        case None
        then show ?thesis using r st by (simp add: updateRecommendation_def touches_refl)
      next
        case (Some v)
        show ?thesis
          unfolding updateRecommendation_def
          by (simp only: r st Some option.case page_onlyD [OF sq])
      qed
    qed
  qed
qed

lemma updateRecommendation_effect:
  assumes "valuationResults s = Some results" and "stockData s = Some stock"
    and "chooseRecommendation results (num stock ''current_price'') = Some v"
    and "document s ''recommendation'' \<noteq> None" and "document s ''final-recommendation'' \<noteq> None"
  shows "\<exists>s'. updateRecommendation s = Done s' \<and>
     map_option content (document s' ''recommendation'') =
       Some (statusSpan (status v) (recommendation v)) \<and>
     map_option content (document s' ''final-recommendation'') =
       Some (statusSpan (status v) (recommendation v))"
proof -
  from assms obtain e1 e2 where e: "document s ''recommendation'' = Some e1"
    "document s ''final-recommendation'' = Some e2" by blast
  show ?thesis
    using assms(1,2,3) e
    by (auto simp add: updateRecommendation_def setContent_def
          safeUpdateElement_def andThen_def split: option.splits)
qed

lemma updateModelDetails_page_only: "page_only UNIV updateModelDetails"
  unfolding page_only_def
proof
  fix s
  show "touches UNIV s (state_of (updateModelDetails s))"
  proof (cases "valuationResults s")
    case None
    then show ?thesis by (simp add: updateModelDetails_def touches_refl)
  next
    case r: (Some results)
    show ?thesis
    proof (cases "stockData s")
      case None
      then show ?thesis using r by (simp add: updateModelDetails_def touches_refl)
    next
      case st: (Some stock)
      show ?thesis
      proof (cases "financial_data results")
        case None
        then show ?thesis using r st by (simp add: updateModelDetails_def touches_refl)
      next
        case (Some fin)
        have ur: "page_only UNIV updateRecommendation"
          using updateRecommendation_page_only by (rule page_only_mono) simp
        have sq: "\<And>a1 a2 a3 a4 a5 a6 a7 a8 a9 a10 a11 a12 a13 a14 a15 a16 a17.
          page_only UNIV (seq [safeUpdateElement ''fcfe-equity'' a1,
                   safeUpdateElement ''fcfe-share-value'' a2,
                   safeUpdateElement ''fcfe-market-diff'' a3,
                   safeUpdateElement ''fcff-ev'' a4,
                   safeUpdateElement ''fcff-equity'' a5,
                   safeUpdateElement ''fcff-share-value'' a6,
                   safeUpdateElement ''fcff-market-diff'' a7,
                   safeUpdateElement ''pe-justified-ratio'' a8,
                   safeUpdateElement ''pe-current-eps'' a9,
                   safeUpdateElement ''pe-share-value'' a10,
                   safeUpdateElement ''pe-market-diff'' a11,
                   safeUpdateElement ''pb-justified-ratio'' a12,
                   safeUpdateElement ''pb-current-bvps'' a13,
                   safeUpdateElement ''pb-share-value'' a14,
                   safeUpdateElement ''pb-market-diff'' a15,
                   safeUpdateElement ''target-price'' a16,
                   safeUpdateElement ''summary-potential'' a17,
                   updateRecommendation])"
          by (intro page_only_seq_Cons page_only_seq_Nil page_only_intros ur) simp_all
        show ?thesis
          unfolding updateModelDetails_def Let_def
          by (simp only: r st Some option.case page_onlyD [OF sq])
      qed
    qed
  qed
qed

lemma updateValuationDisplay_page_only: "page_only UNIV updateValuationDisplay"
  unfolding page_only_def
proof
  fix s
  show "touches UNIV s (state_of (updateValuationDisplay s))"
  proof (cases "stockData s")
    case None
    then show ?thesis by (simp add: updateValuationDisplay_def touches_refl)
  next
    case st: (Some stock)
    show ?thesis
    proof (cases "valuationResults s")
      case None
      then show ?thesis using st by (simp add: updateValuationDisplay_def touches_refl)
    next
      case r: (Some results)
      have sq: "\<And>a1 a2 a3 a4 a5 a6 a7 a8 a9 a10 a11 a12 a13 a14 a15 a16 a17 a18.
          page_only UNIV (seq [setContent ''fcfe-result'' a1,
                   setContent ''fcfe-diff'' a2,
                   setClassName ''fcfe-diff'' a3,
                   setContent ''fcff-result'' a4,
                   setContent ''fcff-diff'' a5,
                   setClassName ''fcff-diff'' a6,
                   setContent ''pe-result'' a7,
                   setContent ''pe-diff'' a8,
                   setClassName ''pe-diff'' a9,
                   setContent ''pb-result'' a10,
                   setContent ''pb-diff'' a11,
                   setClassName ''pb-diff'' a12,
                   setContent ''weighted-result'' a13,
                   setContent ''weighted-diff'' a14,
                   setClassName ''weighted-diff'' a15,
                   safeUpdateElement ''target-price'' a16,
                   safeUpdateElement ''summary-potential'' a17,
                   safeUpdateElement ''return-value'' a18,
                   updateModelDetails])"
        by (intro page_only_seq_Cons page_only_seq_Nil page_only_intros
              updateModelDetails_page_only) simp_all
      show ?thesis
        unfolding updateValuationDisplay_def Let_def
        by (simp only: st r option.case page_onlyD [OF sq])
    qed
  qed
qed

lemma rerender_page_only: "page_only UNIV rerender"
proof -
  have a: "page_only UNIV updateWeightDisplay"
    using updateWeightDisplay_page_only by (rule page_only_mono) simp
  have b: "page_only UNIV updateTotalWeight"
    using updateTotalWeight_page_only by (rule page_only_mono) simp
  have c: "page_only UNIV updateWeightedResults"
    using updateWeightedResults_page_only by (rule page_only_mono) simp
  have d: "page_only UNIV updateRecommendation"
    using updateRecommendation_page_only by (rule page_only_mono) simp
  have cd: "page_only UNIV (seq [updateWeightedResults, updateRecommendation])"
    by (intro page_only_seq_Cons page_only_seq_Nil c d)
  have e: "page_only UNIV (\<lambda>s. if valuationResults s \<noteq> None
                    then seq [updateWeightedResults, updateRecommendation] s
                    else Done s)"
    unfolding page_only_def
  proof
    fix s
    show "touches UNIV s (state_of (if valuationResults s \<noteq> None
                    then seq [updateWeightedResults, updateRecommendation] s
                    else Done s))"
      using page_onlyD [OF cd, of s] by (simp add: touches_refl del: seq.simps)
  qed
  show ?thesis unfolding rerender_def
    by (intro page_only_seq_Cons page_only_seq_Nil a b e)
qed

lemma rerender_effect:
  assumes held: "valuationResults s = Some results" "stockData s = Some stock"
      "chooseRecommendation results (num stock ''current_price'') = Some v"
    and page: "\<forall>i\<in>{''fcfe-weight-value'', ''fcff-weight-value'', ''pe-weight-value'',
        ''pb-weight-value'', ''total-weight'', ''weighted-result'', ''weighted-diff'',
        ''recommendation'', ''final-recommendation''}. document s i \<noteq> None"
  shows "\<exists>s'. rerender s = Done s' \<and> touches UNIV s s' \<and> shows_held results stock v s'"
proof -
  have p1: "\<forall>i\<in>{''fcfe-weight-value'', ''fcff-weight-value'', ''pe-weight-value'',
        ''pb-weight-value''}. document s i \<noteq> None" using page by simp
  from run_page_only [OF updateWeightDisplay_page_only updateWeightDisplay_completes p1]
  obtain s1 where s1: "updateWeightDisplay s = Done s1"
    "touches {''fcfe-weight-value'', ''fcff-weight-value'', ''pe-weight-value'',
        ''pb-weight-value''} s s1" by blast
  note f1 = touches_fields [OF s1(2)]
  have "document s1 ''total-weight'' \<noteq> None" using page f1(10) by simp
  from updateTotalWeight_effect [OF this]
  obtain s2 where s2: "updateTotalWeight s1 = Done s2" "touches {''total-weight''} s1 s2"
    by blast
  note f2 = touches_fields [OF s2(2)]
  have h2: "valuationResults s2 = Some results" "stockData s2 = Some stock"
    using held f1 f2 by simp_all
  have p2: "document s2 ''weighted-result'' \<noteq> None" "document s2 ''weighted-diff'' \<noteq> None"
    using page f1(10) f2(10) by simp_all
  from updateWeightedResults_effect [OF h2 p2]
  obtain s3 where s3: "updateWeightedResults s2 = Done s3"
    "map_option content (document s3 ''weighted-result'') =
       Some (formatCurrency (weighted_average results))"
    "map_option content (document s3 ''weighted-diff'') =
       Some (signedPercent (computeUpsidePercent (toNumber (weighted_average results))
                              (toNumber (num stock ''current_price''))))"
    by blast
  from page_onlyD [OF updateWeightedResults_page_only, of s2] s3(1)
  have t3: "touches {''weighted-result'', ''weighted-diff'', ''target-price'',
     ''summary-potential'', ''return-value''} s2 s3" by simp
  note f3 = touches_fields [OF t3]
  have h3: "valuationResults s3 = Some results" "stockData s3 = Some stock"
    using h2 f3 by simp_all
  have p3: "document s3 ''recommendation'' \<noteq> None" "document s3 ''final-recommendation'' \<noteq> None"
    using page f1(10) f2(10) f3(10) by simp_all
  from updateRecommendation_effect [OF h3 held(3) p3]
  obtain s4 where s4: "updateRecommendation s3 = Done s4"
    "map_option content (document s4 ''recommendation'') =
       Some (statusSpan (status v) (recommendation v))"
    "map_option content (document s4 ''final-recommendation'') =
       Some (statusSpan (status v) (recommendation v))"
    by blast
  from page_onlyD [OF updateRecommendation_page_only, of s3] s4(1)
  have t4: "touches {''recommendation'', ''final-recommendation'', ''recommendation-reasoning'',
     ''confidence-level''} s3 s4" by simp
  have keep: "document s4 ''weighted-result'' = document s3 ''weighted-result''"
    "document s4 ''weighted-diff'' = document s3 ''weighted-diff''"
    using touches_fields(11) [OF t4] by simp_all
  have run: "rerender s = Done s4"
    using s1(1) s2(1) s3(1) s4(1) h2(1) by (simp add: rerender_def andThen_def)
  from page_onlyD [OF rerender_page_only, of s] run have "touches UNIV s s4" by simp
  then show ?thesis using run s3 s4 keep by (simp add: shows_held_def)
qed

lemma updateModelWeights_rerender:
  "updateModelWeights ev s =
     rerender (s\<lparr>modelWeights :=
       (if target_id ev = ''fcfe-weight'' then (modelWeights s)\<lparr>fcfe := target_value ev\<rparr>
        else if target_id ev = ''fcff-weight'' then (modelWeights s)\<lparr>fcff := target_value ev\<rparr>
        else if target_id ev = ''pe-weight''
          then (modelWeights s)\<lparr>justified_pe := target_value ev\<rparr>
        else if target_id ev = ''pb-weight''
          then (modelWeights s)\<lparr>justified_pb := target_value ev\<rparr>
        else modelWeights s)\<rparr>)"
  by (simp only: updateModelWeights_def rerender_def Let_def)

lemma normalizeWeights_rerender:
  "normalizeWeights s =
     andThen (seq [setInputValue ''fcfe-weight'' [NumStr (Fin 25)],
          setInputValue ''fcff-weight'' [NumStr (Fin 25)],
          setInputValue ''pe-weight'' [NumStr (Fin 25)],
          setInputValue ''pb-weight'' [NumStr (Fin 25)]]
        (s\<lparr>modelWeights :=
            \<lparr>fcfe = Fin 25, fcff = Fin 25, justified_pe = Fin 25, justified_pb = Fin 25\<rparr>\<rparr>))
       rerender"
  unfolding normalizeWeights_def rerender_def
  by (simp only: seq_append [symmetric] append.simps)

section \<open>Lemmas on the calculation\<close>

text \<open>
  A failing answer makes the \<open>try\<close> block throw before the assignment to
  \<open>valuationResults\<close>; every run of the action sends its one request; and an
  answer that succeeds leaves the results built from it in the session.
\<close>

lemma calc_try_fails:
  assumes "calc_fails fetchResult"
  shows "\<exists>rq. touches {''status-message''} (s\<lparr>requests := rq\<rparr>)
           (state_of (calc_try symbol fetchResult s)) \<and> threw (calc_try symbol fetchResult s)"
proof (cases "showStatus [Lit ''Calculating valuation models...''] ''info'' s")
  case (Threw e sa)
  from page_onlyD [OF showStatus_page_only, of s "[Lit ''Calculating valuation models...'']" "''info''"]
  have "touches {''status-message''} s sa" using Threw by simp
  then have "touches {''status-message''} (s\<lparr>requests := requests s\<rparr>) sa" by simp
  then have "\<exists>rq. touches {''status-message''} (s\<lparr>requests := rq\<rparr>) sa" by (rule exI)
  then show ?thesis using Threw unfolding calc_try_def by (simp add: andThen_def)
next
  case (Done sa)
  from page_onlyD [OF showStatus_page_only, of s "[Lit ''Calculating valuation models...'']" "''info''"]
  have t: "touches {''status-message''} s sa" using Done by simp
  have "\<exists>e rq. calc_try symbol fetchResult s = Threw e (sa\<lparr>requests := rq\<rparr>)"
  proof (cases fetchResult)
    case (Rejected e)
    then show ?thesis using Done by (simp add: calc_try_def andThen_def Let_def) blast
  next
    case rs: (Resolved response)
    show ?thesis
    proof (cases "ok response")
      case False
      then show ?thesis using Done rs by (simp add: calc_try_def andThen_def Let_def) blast
    next
      case okr: True
      show ?thesis
      proof (cases "json response")
        case None
        then show ?thesis using Done rs okr by (simp add: calc_try_def andThen_def Let_def) blast
      next
        case (Some result)
        with assms rs okr have "\<not> vr_success result" by (simp add: calc_fails_def)
        then show ?thesis using Done rs okr Some by (simp add: calc_try_def andThen_def Let_def) blast
      qed
    qed
  qed
  then obtain e rq where r: "calc_try symbol fetchResult s = Threw e (sa\<lparr>requests := rq\<rparr>)"
    by blast
  from touches_requests [OF t, of rq] show ?thesis using r by auto
qed

lemma calculate_failure_frame:
  assumes "calc_fails fetchResult"
  shows "\<exists>rq. touches {''status-message''} (s\<lparr>requests := rq\<rparr>)
           (state_of (calculateValuation fetchResult s))"
proof -
  have idle: "\<And>m. \<exists>rq. touches {''status-message''} (s\<lparr>requests := rq\<rparr>)
      (state_of (showStatus m ''error'' s))"
  proof -
    fix m
    from page_onlyD [OF showStatus_page_only, of s m "''error''"]
    have "touches {''status-message''} (s\<lparr>requests := requests s\<rparr>)
      (state_of (showStatus m ''error'' s))" by simp
    then show "\<exists>rq. touches {''status-message''} (s\<lparr>requests := rq\<rparr>)
      (state_of (showStatus m ''error'' s))" by blast
  qed
  show ?thesis
  proof (cases "currentStock s")
    case None
    then show ?thesis using idle by (simp add: calculateValuation_def)
  next
    case (Some symbol)
    show ?thesis
    proof (cases "symbol = []")
      case True
      then show ?thesis using Some idle by (simp add: calculateValuation_def)
    next
      case False
      from calc_try_fails [OF assms, of s symbol] obtain rq where
        t: "touches {''status-message''} (s\<lparr>requests := rq\<rparr>)
           (state_of (calc_try symbol fetchResult s))"
        and th: "threw (calc_try symbol fetchResult s)" by blast
      from th obtain e sb where sb: "calc_try symbol fetchResult s = Threw e sb"
        by (cases "calc_try symbol fetchResult s") simp_all
      let ?h = "showStatus ([Lit ''Error calculating valuation: ''] @ exn_message e) ''error''"
      have "touches {''status-message''} sb (state_of (?h sb))"
        using showStatus_page_only by (rule page_onlyD)
      with t sb have "touches ({''status-message''} \<union> {''status-message''})
          (s\<lparr>requests := rq\<rparr>) (state_of (?h sb))"
        using touches_trans by fastforce
      then show ?thesis using Some False sb
        by (auto simp add: calculateValuation_def tryCatch_def)
    qed
  qed
qed

lemma calc_success_page_only:
  "page_only UNIV (seq [updateValuationDisplay, updateWeightedResults, updateRecommendation,
     setDisabled ''export-report-btn'' False,
     showStatus [Lit ''Valuation calculation completed''] ''success''])"
proof -
  have a: "page_only UNIV updateWeightedResults"
    using updateWeightedResults_page_only by (rule page_only_mono) simp
  have b: "page_only UNIV updateRecommendation"
    using updateRecommendation_page_only by (rule page_only_mono) simp
  have c: "page_only UNIV (showStatus [Lit ''Valuation calculation completed''] ''success'')"
    using showStatus_page_only by (rule page_only_mono) simp
  show ?thesis
    by (intro page_only_seq_Cons page_only_seq_Nil page_only_intros
          updateValuationDisplay_page_only a b c) simp_all
qed



lemma buildResults_stock:
  "stockData s' = stockData s \<Longrightarrow> buildResults result s' = buildResults result s"
  by (simp add: buildResults_def cong: option.case_cong)

lemma calculate_success_frame:
  assumes "currentStock s = Some symbol" and "symbol \<noteq> []"
    and "document s ''status-message'' \<noteq> None"
    and "ok response" and "json response = Some result" and "vr_success result"
    and "buildResults result s = Some results"
  shows "\<exists>rq. touches UNIV (s\<lparr>requests := rq, valuationResults := Some results\<rparr>)
           (state_of (calculateValuation (Resolved response) s))"
proof -
  have co: "\<forall>i\<in>{''status-message''}. document s i \<noteq> None" using assms(3) by simp
  from run_page_only [OF showStatus_page_only showStatus_completes co]
  obtain sa where sa: "showStatus [Lit ''Calculating valuation models...''] ''info'' s = Done sa"
    "touches {''status-message''} s sa" by blast
  note f = touches_fields [OF sa(2)]
  let ?rq = "requests sa @
       [POST (apiBaseUrl sa @ ''/api/valuation/'' @ symbol)
          \<lparr>rq_revenueGrowth = revenueGrowth (assumptions sa),
           rq_terminalGrowth = terminalGrowth (assumptions sa),
           rq_wacc = wacc (assumptions sa),
           rq_requiredReturn = requiredReturn (assumptions sa),
           rq_taxRate = taxRate (assumptions sa),
           rq_projectionYears = projectionYears (assumptions sa),
           rq_roe = Fin 15,
           rq_payoutRatio = Fin 40,
           rq_modelWeights = modelWeights sa\<rparr>]"
  let ?s1 = "sa\<lparr>requests := ?rq\<rparr>"
  let ?tail = "seq [updateValuationDisplay, updateWeightedResults, updateRecommendation,
     setDisabled ''export-report-btn'' False,
     showStatus [Lit ''Valuation calculation completed''] ''success'']"
  have b: "buildResults result ?s1 = Some results"
    using assms(7) f(2) buildResults_stock [of ?s1 s result] by simp
  have run: "calc_try symbol (Resolved response) s =
      ?tail (?s1\<lparr>valuationResults := Some results\<rparr>)"
    using sa(1) assms(4,5,6) b by (simp add: calc_try_def andThen_def Let_def del: seq.simps)
  have t1: "touches {''status-message''} (s\<lparr>requests := ?rq, valuationResults := Some results\<rparr>)
      (?s1\<lparr>valuationResults := Some results\<rparr>)"
    using touches_held [OF sa(2), where rq = ?rq and v = "Some results"] by simp
  have t2: "touches UNIV (?s1\<lparr>valuationResults := Some results\<rparr>)
      (state_of (?tail (?s1\<lparr>valuationResults := Some results\<rparr>)))"
    using calc_success_page_only by (rule page_onlyD)
  from touches_trans [OF t1 t2]
  have t3: "touches UNIV (s\<lparr>requests := ?rq, valuationResults := Some results\<rparr>)
      (state_of (calc_try symbol (Resolved response) s))"
    using run by simp
  let ?h = "\<lambda>e. showStatus ([Lit ''Error calculating valuation: ''] @ exn_message e) ''error''"
  have "touches UNIV (s\<lparr>requests := ?rq, valuationResults := Some results\<rparr>)
      (state_of (tryCatch (calc_try symbol (Resolved response) s) ?h))"
  proof (cases "calc_try symbol (Resolved response) s")
    case (Done sb)
    then show ?thesis using t3 by (simp add: tryCatch_def)
  next
    case (Threw e sb)
    have "touches {''status-message''} sb (state_of (?h e sb))"
      using showStatus_page_only by (rule page_onlyD)
    from touches_trans [OF _ this, of UNIV "s\<lparr>requests := ?rq, valuationResults := Some results\<rparr>"]
    show ?thesis using t3 Threw by (simp add: tryCatch_def)
  qed
  then have "touches UNIV (s\<lparr>requests := ?rq, valuationResults := Some results\<rparr>)
           (state_of (calculateValuation (Resolved response) s))"
    using assms(1,2) by (simp add: calculateValuation_def)
  then show ?thesis by (rule exI)
qed

section \<open>The sample session\<close>

lemma index_page_has: "i \<in> set index_ids \<Longrightarrow> index_page i \<noteq> None"
proof -
  assume "i \<in> set index_ids"
  then have "i \<in> fst ` set (map (\<lambda>i. (i, \<lparr>content = [], className = [], disabled = False,
                            input_value = []\<rparr>)) index_ids)"
    by (simp add: image_image)
  then show ?thesis unfolding index_page_def by (simp add: map_of_eq_None_iff)
qed

lemma index_page_ids:
  "index_page ''load-data-btn'' \<noteq> None" "index_page ''status-message'' \<noteq> None"
  "index_page ''recommendation'' \<noteq> None" "index_page ''final-recommendation'' \<noteq> None"
  "index_page ''export-report-btn'' \<noteq> None" "index_page ''weighted-result'' \<noteq> None"
  "index_page ''weighted-diff'' \<noteq> None" "index_page ''total-weight'' \<noteq> None"
  "index_page ''fcfe-weight-value'' \<noteq> None" "index_page ''fcff-weight-value'' \<noteq> None"
  "index_page ''pe-weight-value'' \<noteq> None" "index_page ''pb-weight-value'' \<noteq> None"
  "index_page ''fcfe-weight'' \<noteq> None" "index_page ''fcff-weight'' \<noteq> None"
  "index_page ''pe-weight'' \<noteq> None" "index_page ''pb-weight'' \<noteq> None"
  by (rule index_page_has, simp add: index_ids_def)+

lemma sample_results: "buildResults vnm_response loaded_session = Some vnm_results"
  by (simp add: buildResults_def vnm_response_def loaded_session_def vnm_stock_def vnm_results_def)

lemma held_session_frame:
  "\<exists>rq. touches UNIV (loaded_session\<lparr>requests := rq, valuationResults := Some vnm_results\<rparr>)
     held_session"
proof -
  have a: "currentStock loaded_session = Some ''VNM''" "''VNM'' \<noteq> []"
    by (simp_all add: loaded_session_def)
  have p: "document loaded_session ''status-message'' \<noteq> None"
    using index_page_ids by (simp add: loaded_session_def new_app_def)
  have r: "ok (Response True 200 (Some vnm_response))"
    "json (Response True 200 (Some vnm_response)) = Some vnm_response"
    "vr_success vnm_response" by (simp_all add: vnm_response_def)
  from calculate_success_frame [OF a p r sample_results] show ?thesis
    by (simp add: held_session_def)
qed

text \<open>
  The calculation on the loaded session runs to its end and shows the weighted
  average of the engine; the loaded session has the symbol and the price that
  \<open>loadStockData\<close> leaves in the application at start.
\<close>

lemma held_session_shows:
  "map_option content (document held_session ''weighted-result'') = Some [Currency (Fin 98750)] \<and>
   \<not> threw (calculateValuation (Resolved (Response True 200 (Some vnm_response))) loaded_session)"
  unfolding held_session_def by code_simp

lemma loaded_session_reached:
  "currentStock (state_of (loadStockData ''VNM'' (Resolved (Response True 200 (Some vnm_stock)))
           (Resolved (Response False 404 None)) new_app)) = currentStock loaded_session \<and>
   \<not> threw (loadStockData ''VNM'' (Resolved (Response True 200 (Some vnm_stock)))
           (Resolved (Response False 404 None)) new_app) \<and>
   map_option (\<lambda>d. num d ''current_price'') (stockData (state_of (loadStockData ''VNM''
       (Resolved (Response True 200 (Some vnm_stock)))
           (Resolved (Response False 404 None)) new_app))) = Some (Num (Fin 100000))"
  by code_simp

lemma held_session_page:
  "index_page i \<noteq> None \<Longrightarrow> document held_session i \<noteq> None"
  "index_page i \<noteq> None \<Longrightarrow> document zero_price_session i \<noteq> None"
proof -
  from held_session_frame obtain rq where
    t: "touches UNIV (loaded_session\<lparr>requests := rq, valuationResults := Some vnm_results\<rparr>)
     held_session" by blast
  assume "index_page i \<noteq> None"
  then show "document held_session i \<noteq> None"
    using touches_fields(10) [OF t, of i] by (simp add: loaded_session_def new_app_def)
  then show "document zero_price_session i \<noteq> None" by (simp add: zero_price_session_def)
qed

lemma held_session_fields:
  "document zero_price_session = document held_session"
  "map_option content (document held_session ''weighted-result'') = Some [Currency (Fin 98750)]"
  "valuationResults held_session = Some vnm_results"
  "valuationResults zero_price_session = Some vnm_results"
  "stockData held_session = Some vnm_stock"
  "currentStock held_session = Some ''VNM''"
  "apiBaseUrl held_session = ''http://localhost:5000''"
  "modelWeights held_session =
     \<lparr>fcfe = Fin 25, fcff = Fin 25, justified_pe = Fin 25, justified_pb = Fin 25\<rparr>"
proof -
  from held_session_frame obtain rq where
    t: "touches UNIV (loaded_session\<lparr>requests := rq, valuationResults := Some vnm_results\<rparr>)
     held_session" by blast
  note f = touches_fields [OF t]
  show "document zero_price_session = document held_session"
    by (simp add: zero_price_session_def)
  show "map_option content (document held_session ''weighted-result'') = Some [Currency (Fin 98750)]"
    using held_session_shows by blast
  show v: "valuationResults held_session = Some vnm_results" using f(6) by simp
  then show "valuationResults zero_price_session = Some vnm_results"
    by (simp add: zero_price_session_def)
  show "stockData held_session = Some vnm_stock" using f(2) by (simp add: loaded_session_def)
  show "currentStock held_session = Some ''VNM''" using f(1) by (simp add: loaded_session_def)
  show "apiBaseUrl held_session = ''http://localhost:5000''"
    using f(7) by (simp add: loaded_session_def new_app_def)
  show "modelWeights held_session =
     \<lparr>fcfe = Fin 25, fcff = Fin 25, justified_pe = Fin 25, justified_pb = Fin 25\<rparr>"
    using f(5) by (simp add: loaded_session_def new_app_def)
qed

section \<open>Effects of a change of weights\<close>

lemma weight_change_effect:
  assumes held: "valuationResults s = Some results" "stockData s = Some stock"
      "chooseRecommendation results (num stock ''current_price'') = Some v"
    and page: "\<forall>i\<in>{''fcfe-weight-value'', ''fcff-weight-value'', ''pe-weight-value'',
        ''pb-weight-value'', ''total-weight'', ''weighted-result'', ''weighted-diff'',
        ''recommendation'', ''final-recommendation''}. document s i \<noteq> None"
  shows "\<exists>s'. updateModelWeights ev s = Done s' \<and> requests s' = requests s \<and>
           valuationResults s' = Some results \<and> shows_held results stock v s'"
proof -
  let ?s0 = "s\<lparr>modelWeights :=
       (if target_id ev = ''fcfe-weight'' then (modelWeights s)\<lparr>fcfe := target_value ev\<rparr>
        else if target_id ev = ''fcff-weight'' then (modelWeights s)\<lparr>fcff := target_value ev\<rparr>
        else if target_id ev = ''pe-weight''
          then (modelWeights s)\<lparr>justified_pe := target_value ev\<rparr>
        else if target_id ev = ''pb-weight''
          then (modelWeights s)\<lparr>justified_pb := target_value ev\<rparr>
        else modelWeights s)\<rparr>"
  have h0: "valuationResults ?s0 = Some results" "stockData ?s0 = Some stock"
    using held by simp_all
  have p0: "\<forall>i\<in>{''fcfe-weight-value'', ''fcff-weight-value'', ''pe-weight-value'',
        ''pb-weight-value'', ''total-weight'', ''weighted-result'', ''weighted-diff'',
        ''recommendation'', ''final-recommendation''}. document ?s0 i \<noteq> None"
    using page by simp
  from rerender_effect [OF h0 held(3) p0] obtain s' where
    s': "rerender ?s0 = Done s'" "touches UNIV ?s0 s'" "shows_held results stock v s'" by blast
  have "requests s' = requests s" "valuationResults s' = Some results"
    using touches_fields(6,9) [OF s'(2)] held by simp_all
  then show ?thesis using s' by (simp add: updateModelWeights_rerender)
qed

lemma normalize_effect:
  assumes held: "valuationResults s = Some results" "stockData s = Some stock"
      "chooseRecommendation results (num stock ''current_price'') = Some v"
    and page: "\<forall>i\<in>{''fcfe-weight-value'', ''fcff-weight-value'', ''pe-weight-value'',
        ''pb-weight-value'', ''total-weight'', ''weighted-result'', ''weighted-diff'',
        ''recommendation'', ''final-recommendation''}. document s i \<noteq> None"
    and sliders: "\<forall>i\<in>{''fcfe-weight'', ''fcff-weight'', ''pe-weight'', ''pb-weight''}.
        document s i \<noteq> None"
  shows "\<exists>s'. normalizeWeights s = Done s' \<and> requests s' = requests s \<and>
           valuationResults s' = Some results \<and> shows_held results stock v s'"
proof -
  let ?I = "{''fcfe-weight'', ''fcff-weight'', ''pe-weight'', ''pb-weight''}"
  let ?s0 = "s\<lparr>modelWeights :=
            \<lparr>fcfe = Fin 25, fcff = Fin 25, justified_pe = Fin 25, justified_pb = Fin 25\<rparr>\<rparr>"
  let ?set = "seq [setInputValue ''fcfe-weight'' [NumStr (Fin 25)],
          setInputValue ''fcff-weight'' [NumStr (Fin 25)],
          setInputValue ''pe-weight'' [NumStr (Fin 25)],
          setInputValue ''pb-weight'' [NumStr (Fin 25)]]"
  have po: "page_only ?I ?set"
    by (intro page_only_seq_Cons page_only_seq_Nil page_only_intros) simp_all
  have co: "completes ?I ?set"
    by (rule completes_seq [where J = ?I]) (auto intro: page_only_intros completes_intros)
  have sl: "\<forall>i\<in>?I. document ?s0 i \<noteq> None" using sliders by simp
  from run_page_only [OF po co sl] obtain s1 where
    s1: "?set ?s0 = Done s1" "touches ?I ?s0 s1" by blast
  note f1 = touches_fields [OF s1(2)]
  have h1: "valuationResults s1 = Some results" "stockData s1 = Some stock"
    using held f1 by simp_all
  have p1: "\<forall>i\<in>{''fcfe-weight-value'', ''fcff-weight-value'', ''pe-weight-value'',
        ''pb-weight-value'', ''total-weight'', ''weighted-result'', ''weighted-diff'',
        ''recommendation'', ''final-recommendation''}. document s1 i \<noteq> None"
    using page f1(10) by simp
  from rerender_effect [OF h1 held(3) p1] obtain s' where
    s': "rerender s1 = Done s'" "touches UNIV s1 s'" "shows_held results stock v s'" by blast
  have "requests s' = requests s" "valuationResults s' = Some results"
    using touches_fields(6,9) [OF s'(2)] f1 held by simp_all
  then show ?thesis using s' s1(1) by (simp add: normalizeWeights_rerender andThen_def)
qed

lemma weight_change_frame:
  "touches UNIV
     (s\<lparr>modelWeights :=
       (if target_id ev = ''fcfe-weight'' then (modelWeights s)\<lparr>fcfe := target_value ev\<rparr>
        else if target_id ev = ''fcff-weight'' then (modelWeights s)\<lparr>fcff := target_value ev\<rparr>
        else if target_id ev = ''pe-weight''
          then (modelWeights s)\<lparr>justified_pe := target_value ev\<rparr>
        else if target_id ev = ''pb-weight''
          then (modelWeights s)\<lparr>justified_pb := target_value ev\<rparr>
        else modelWeights s)\<rparr>)
     (state_of (updateModelWeights ev s))"
  unfolding updateModelWeights_rerender using rerender_page_only by (rule page_onlyD)

lemma normalize_frame:
  "touches UNIV
     (s\<lparr>modelWeights :=
         \<lparr>fcfe = Fin 25, fcff = Fin 25, justified_pe = Fin 25, justified_pb = Fin 25\<rparr>\<rparr>)
     (state_of (normalizeWeights s))"
proof -
  let ?set = "seq [setInputValue ''fcfe-weight'' [NumStr (Fin 25)],
          setInputValue ''fcff-weight'' [NumStr (Fin 25)],
          setInputValue ''pe-weight'' [NumStr (Fin 25)],
          setInputValue ''pb-weight'' [NumStr (Fin 25)]]"
  have po: "page_only UNIV ?set"
    by (intro page_only_seq_Cons page_only_seq_Nil page_only_intros) simp_all
  have "touches (UNIV \<union> UNIV)
     (s\<lparr>modelWeights :=
         \<lparr>fcfe = Fin 25, fcff = Fin 25, justified_pe = Fin 25, justified_pb = Fin 25\<rparr>\<rparr>)
     (state_of (andThen (?set (s\<lparr>modelWeights :=
         \<lparr>fcfe = Fin 25, fcff = Fin 25, justified_pe = Fin 25, justified_pb = Fin 25\<rparr>\<rparr>))
       rerender))"
    using page_onlyD [OF po] page_onlyD [OF rerender_page_only] by (rule andThen_touches)
  then show ?thesis by (simp only: normalizeWeights_rerender Un_absorb)
qed

lemma held_verdict:
  "chooseRecommendation vnm_results (num vnm_stock ''current_price'') =
     Some \<lparr>recommendation = ''HOLD'', status = ''neutral'',
       reasoning = [Lit ''Stock is fairly valued - upside/downside within 15% range'']\<rparr>"
  by (simp add: chooseRecommendation_def vnm_results_def vnm_stock_def classifyRecommendation_def
        computeUpsidePercent_def js_sub_def js_gt_def)

lemma held_page_all:
  "\<forall>i\<in>{''fcfe-weight-value'', ''fcff-weight-value'', ''pe-weight-value'',
        ''pb-weight-value'', ''total-weight'', ''weighted-result'', ''weighted-diff'',
        ''recommendation'', ''final-recommendation''}. document held_session i \<noteq> None"
  "\<forall>i\<in>{''fcfe-weight'', ''fcff-weight'', ''pe-weight'', ''pb-weight''}.
        document held_session i \<noteq> None"
  using index_page_ids held_session_page(1) by simp_all

section \<open>Lemmas on rounding\<close>

text \<open>\<open>binade x\<close> is the exponent of the power of two at or below \<open>\<bar>x\<bar>\<close>.\<close>

lemma pow_suc: "2 powr real_of_int (k + 1) = 2 * 2 powr real_of_int k"
  by (simp add: powr_add)

lemma exp_up_bounds:
  "1 \<le> x \<Longrightarrow> 2 powr real_of_int (exp_up x) \<le> x \<and> x < 2 powr real_of_int (exp_up x + 1)"
proof (induction x rule: exp_up.induct)
  case (1 x)
  show ?case
  proof (cases "x < 2")
    case True
    then have "exp_up x = 0" by (subst exp_up.simps) simp
    with 1(2) True show ?thesis by simp
  next
    case False
    then have h: "1 \<le> x / 2" by simp
    from False have e: "exp_up x = exp_up (x / 2) + 1" by (subst exp_up.simps) simp
    from 1(1) [OF False h]
    have "2 powr real_of_int (exp_up (x / 2)) \<le> x / 2"
      "x / 2 < 2 powr real_of_int (exp_up (x / 2) + 1)" by simp_all
    then have "2 * 2 powr real_of_int (exp_up (x / 2)) \<le> x"
      "x < 2 * 2 powr real_of_int (exp_up (x / 2) + 1)" by linarith+
    then show ?thesis by (simp only: e pow_suc [symmetric])
  qed
qed

lemma exp_down_bounds:
  "0 < x \<Longrightarrow> x < 1 \<Longrightarrow>
     2 powr real_of_int (exp_down x) \<le> x \<and> x < 2 powr real_of_int (exp_down x + 1)"
proof (induction x rule: exp_down.induct)
  case (1 x)
  from 1(2,3) have n: "\<not> (x \<le> 0 \<or> 1 \<le> x)" by simp
  then have e: "exp_down x = exp_down (2 * x) - 1" by (subst exp_down.simps) simp
  show ?case
  proof (cases "2 * x < 1")
    case True
    from 1(2) have "0 < 2 * x" by simp
    from 1(1) [OF n this True]
    have "2 powr real_of_int (exp_down (2 * x)) \<le> 2 * x"
      "2 * x < 2 powr real_of_int (exp_down (2 * x) + 1)" by simp_all
    then have "2 * 2 powr real_of_int (exp_down (2 * x) - 1) \<le> 2 * x"
      "2 * x < 2 * 2 powr real_of_int (exp_down (2 * x) - 1 + 1)"
      using pow_suc [of "exp_down (2 * x) - 1"] pow_suc [of "exp_down (2 * x)"] by simp_all
    then show ?thesis by (simp only: e) simp
  next
    case False
    then have "exp_down (2 * x) = 0" by (subst exp_down.simps) simp
    then have "exp_down x = - 1" using e by simp
    then show ?thesis using False 1(3) by (simp add: powr_minus)
  qed
qed

lemma binade_bounds:
  assumes "x \<noteq> 0"
  shows "2 powr real_of_int (binade x) \<le> \<bar>x\<bar> \<and> \<bar>x\<bar> < 2 powr real_of_int (binade x + 1)"
proof (cases "1 \<le> \<bar>x\<bar>")
  case True
  from exp_up_bounds [OF True] True show ?thesis by (simp add: binade_def)
next
  case False
  then have "\<bar>x\<bar> < 1" by simp
  moreover have "0 < \<bar>x\<bar>" using assms by simp
  ultimately show ?thesis using exp_down_bounds [of "\<bar>x\<bar>"] False by (simp add: binade_def)
qed

lemma binade_log: "x \<noteq> 0 \<Longrightarrow> binade x = \<lfloor>log 2 \<bar>x\<bar>\<rfloor>"
  using floor_log_eq_powr_iff [of "\<bar>x\<bar>" 2 "binade x"] binade_bounds [of x] by simp

lemma binade_eq:
  "x \<noteq> 0 \<Longrightarrow> (binade x = k) = (2 powr real_of_int k \<le> \<bar>x\<bar> \<and> \<bar>x\<bar> < 2 powr real_of_int (k + 1))"
  using floor_log_eq_powr_iff [of "\<bar>x\<bar>" 2 k] by (simp add: binade_log)

lemma quantum_eq: "quantum x = 2 powr real_of_int (max (binade x - 52) (- 1074))"
  by (simp add: quantum_def powr_real_of_int')





lemma quantum_pos: "0 < quantum x"
  by (simp add: quantum_eq)

lemma overflow_eq: "(2::real) ^ 1024 = 2 powr 1024"
  using powr_realpow [of "2::real" 1024] by simp

lemma round64_alt:
  "round64 x =
     (if x = 0 then Fin 0
      else if 2 powr 1024 \<le> \<bar>of_int (rne (x / quantum x)) * quantum x\<bar>
        then (if 0 < x then PInf else NInf)
      else Fin (of_int (rne (x / quantum x)) * quantum x))"
  by (simp only: round64_def overflow_eq)

lemma rne_of_int: "rne (of_int n) = n"
  by (simp add: rne_def)

lemma rne_le: "y \<le> of_int n \<Longrightarrow> rne y \<le> n"
  unfolding rne_def by (auto simp add: floor_le_iff)

lemma rne_ge: "of_int n \<le> y \<Longrightarrow> n \<le> rne y"
proof -
  assume "of_int n \<le> y"
  then have "n \<le> \<lfloor>y\<rfloor>" by (simp add: le_floor_iff)
  moreover have "\<lfloor>y\<rfloor> \<le> rne y" by (simp add: rne_def)
  ultimately show ?thesis by linarith
qed

lemma powr_int_add: "2 powr real_of_int (a + b) = 2 powr real_of_int a * (2::real) powr real_of_int b"
  by (simp add: powr_add)

lemma powr_int_nat: "0 \<le> a \<Longrightarrow> \<exists>N::int. (2::real) powr real_of_int a = of_int N \<and> 0 < N"
proof -
  assume "0 \<le> a"
  then have "(2::real) powr real_of_int a = 2 ^ nat a"
    using powr_realpow [of 2 "nat a"] by simp
  then have "(2::real) powr real_of_int a = of_int (2 ^ nat a)" by simp
  then show ?thesis by (intro exI [of _ "2 ^ nat a"]) simp
qed

lemma powr_int_mono: "a \<le> b \<Longrightarrow> (2::real) powr real_of_int a \<le> 2 powr real_of_int b"
  by simp


text \<open>A power of two that is at least one quantum is a whole number of quanta.\<close>

lemma pow_over_quantum:
  assumes "max (binade x - 52) (- 1074) \<le> a"
  shows "\<exists>N::int. 2 powr real_of_int a = of_int N * quantum x \<and> 0 < N"
proof -
  let ?e = "max (binade x - 52) (- 1074)"
  from assms have "0 \<le> a - ?e" by simp
  from powr_int_nat [OF this] obtain N :: int where
    N: "(2::real) powr real_of_int (a - ?e) = of_int N" "0 < N" by blast
  have "(2::real) powr real_of_int a = 2 powr real_of_int ((a - ?e) + ?e)" by simp
  also have "\<dots> = 2 powr real_of_int (a - ?e) * 2 powr real_of_int ?e"
    by (rule powr_int_add)
  finally have "(2::real) powr real_of_int a = of_int N * quantum x"
    using N(1) by (simp only: quantum_eq)
  with N(2) show ?thesis by blast
qed

text \<open>Rounding a positive number below a power of two stays below it.\<close>

lemma round_le_pow:
  assumes x: "0 < x" "x \<le> 2 powr real_of_int a" and a: "- 1074 \<le> a"
  shows "of_int (rne (x / quantum x)) * quantum x \<le> 2 powr real_of_int a"
    and "0 \<le> of_int (rne (x / quantum x)) * quantum x"
proof -
  have b: "2 powr real_of_int (binade x) \<le> x" using binade_bounds [of x] x(1) by simp
  then have "(2::real) powr real_of_int (binade x) \<le> 2 powr real_of_int a" using x(2) by linarith
  then have "binade x \<le> a" by simp
  then have "max (binade x - 52) (- 1074) \<le> a" using a by simp
  from pow_over_quantum [OF this] obtain N :: int where
    N: "2 powr real_of_int a = of_int N * quantum x" by blast
  have "x / quantum x \<le> of_int N"
    using x(2) N quantum_pos [of x] by (simp add: pos_divide_le_eq)
  then have "rne (x / quantum x) \<le> N" by (rule rne_le)
  then have "real_of_int (rne (x / quantum x)) \<le> of_int N" by simp
  then have "of_int (rne (x / quantum x)) * quantum x \<le> of_int N * quantum x"
    using quantum_pos [of x] by (simp add: mult_right_mono)
  then show "of_int (rne (x / quantum x)) * quantum x \<le> 2 powr real_of_int a"
    using N by simp
  have "of_int 0 \<le> x / quantum x" using x(1) quantum_pos [of x] by simp
  then have "0 \<le> rne (x / quantum x)" by (rule rne_ge)
  then show "0 \<le> of_int (rne (x / quantum x)) * quantum x"
    using quantum_pos [of x] by simp
qed



text \<open>Rounding a number never crosses the power of two below it, nor zero.\<close>

lemma round_ge_binade:
  assumes "0 < x" "- 1074 \<le> binade x"
  shows "2 powr real_of_int (binade x) \<le> of_int (rne (x / quantum x)) * quantum x"
proof -
  have "max (binade x - 52) (- 1074) \<le> binade x" using assms(2) by simp
  from pow_over_quantum [OF this] obtain N :: int where
    N: "2 powr real_of_int (binade x) = of_int N * quantum x" by blast
  have "2 powr real_of_int (binade x) \<le> x" using binade_bounds [of x] assms(1) by simp
  then have "of_int N \<le> x / quantum x"
    using N quantum_pos [of x] by (simp add: pos_le_divide_eq)
  then have "N \<le> rne (x / quantum x)" by (rule rne_ge)
  then have "real_of_int N \<le> of_int (rne (x / quantum x))" by simp
  then have "of_int N * quantum x \<le> of_int (rne (x / quantum x)) * quantum x"
    using quantum_pos [of x] by (simp add: mult_right_mono)
  then show ?thesis using N by simp
qed

lemma round_le_binade:
  assumes "x < 0" "- 1074 \<le> binade x"
  shows "of_int (rne (x / quantum x)) * quantum x \<le> - (2 powr real_of_int (binade x))"
proof -
  have "max (binade x - 52) (- 1074) \<le> binade x" using assms(2) by simp
  from pow_over_quantum [OF this] obtain N :: int where
    N: "2 powr real_of_int (binade x) = of_int N * quantum x" by blast
  have "2 powr real_of_int (binade x) \<le> - x" using binade_bounds [of x] assms(1) by simp
  then have "x \<le> of_int (- N) * quantum x" using N by simp
  then have "x / quantum x \<le> of_int (- N)"
    using quantum_pos [of x] by (simp only: pos_divide_le_eq)
  then have "rne (x / quantum x) \<le> - N" by (rule rne_le)
  then have "real_of_int (rne (x / quantum x)) \<le> of_int (- N)" by (simp only: of_int_le_iff)
  then have "of_int (rne (x / quantum x)) * quantum x \<le> of_int (- N) * quantum x"
    by (rule mult_right_mono) (simp add: less_imp_le quantum_pos)
  then show ?thesis using N by simp
qed

lemma round_nonpos:
  assumes "x \<le> 0"
  shows "of_int (rne (x / quantum x)) * quantum x \<le> 0"
proof -
  have "x / quantum x \<le> of_int 0" using assms quantum_pos [of x] by (simp add: divide_le_0_iff)
  then have "rne (x / quantum x) \<le> 0" by (rule rne_le)
  then have "real_of_int (rne (x / quantum x)) \<le> 0" by simp
  then show ?thesis using quantum_pos [of x] by (simp add: mult_le_0_iff)
qed

lemma binade_nonneg:
  assumes "1 \<le> \<bar>x\<bar>"
  shows "0 \<le> binade x"
proof -
  from assms have "x \<noteq> 0" by auto
  from binade_bounds [OF this] assms
  have "2 powr real_of_int 0 < 2 powr real_of_int (binade x + 1)" by simp
  then have "0 < binade x + 1"
    by (simp only: powr_less_cancel_iff [of 2] of_int_less_iff one_less_numeral_iff semiring_norm)
  then show ?thesis by simp
qed

text \<open>A number of magnitude at least one is rounded to one of magnitude at least one.\<close>

lemma round64_big:
  assumes "1 \<le> \<bar>x\<bar>" "c \<le> 1"
  shows "\<not> js_lt (js_abs (round64 x)) (Fin c)"
proof -
  let ?y = "of_int (rne (x / quantum x)) * quantum x"
  have k: "0 \<le> binade x" using assms(1) by (rule binade_nonneg)
  then have one: "(1::real) \<le> 2 powr real_of_int (binade x)" by (simp add: ge_one_powr_ge_zero)
  have "1 \<le> \<bar>?y\<bar>"
  proof (cases "0 < x")
    case True
    from round_ge_binade [OF True] k have "2 powr real_of_int (binade x) \<le> ?y" by simp
    with one show ?thesis by linarith
  next
    case False
    with assms(1) have neg: "x < 0" by simp
    from round_le_binade [OF neg] k have "?y \<le> - (2 powr real_of_int (binade x))" by simp
    with one show ?thesis by linarith
  qed
  moreover have "x \<noteq> 0" using assms(1) by auto
  ultimately show ?thesis using assms(2) by (simp add: round64_alt)
qed

text \<open>A whole number of quanta below the overflow threshold is a double.\<close>

lemma round64_exact:
  assumes "x = of_int m * quantum x" "\<bar>x\<bar> < 2 powr 1024"
  shows "round64 x = Fin x"
proof -
  have "x / quantum x = of_int m"
    using assms(1) quantum_pos [of x] by (simp add: nonzero_divide_eq_eq)
  then have "rne (x / quantum x) = m" by (simp only: rne_of_int)
  then have "of_int (rne (x / quantum x)) * quantum x = x" using assms(1) by simp
  then show ?thesis using assms(2) by (simp add: round64_alt)
qed

lemma pow46: "(2::real) powr real_of_int (- 46) = 1 / 2 ^ 46"
  using powr_realpow [of "2::real" 46] by (simp add: powr_minus divide_simps)

lemma round64_grid_exact:
  assumes "x = of_int m / 2 ^ 46" "\<bar>x\<bar> < 1"
  shows "round64 x = Fin x"
proof (cases "x = 0")
  case True
  then show ?thesis by (simp add: round64_alt)
next
  case False
  have "2 powr real_of_int (binade x) \<le> \<bar>x\<bar>" using binade_bounds [OF False] by simp
  then have "2 powr real_of_int (binade x) < 2 powr real_of_int 0" using assms(2) by simp
  then have "binade x < 0" by (simp only: powr_less_cancel_iff [of 2] of_int_less_iff one_less_numeral_iff semiring_norm)
  then have "max (binade x - 52) (- 1074) \<le> - 46" by simp
  from pow_over_quantum [OF this] obtain N :: int where
    N: "2 powr real_of_int (- 46) = of_int N * quantum x" by blast
  have "x = of_int m * (2 powr real_of_int (- 46))" using assms(1) by (simp only: pow46) simp
  also have "\<dots> = of_int (m * N) * quantum x" by (simp only: N) simp
  finally have q: "x = of_int (m * N) * quantum x" .
  have "(1::real) \<le> 2 powr 1024" by (simp add: ge_one_powr_ge_zero)
  with assms(2) have "\<bar>x\<bar> < 2 powr 1024" by linarith
  with q show ?thesis by (rule round64_exact)
qed

text \<open>A double between 99 and 101 is a multiple of 2 to the -46.\<close>

lemma round64_grid:
  assumes r: "round64 z = Fin t" and t: "99 < t" "t < 101"
  shows "\<exists>m::int. t = of_int m / 2 ^ 46"
proof -
  let ?y = "of_int (rne (z / quantum z)) * quantum z"
  have z0: "z \<noteq> 0" using r t by (auto simp add: round64_alt)
  have ty: "t = ?y" using r z0 by (simp add: round64_alt split: if_splits)
  have pos: "0 < z"
  proof (rule ccontr)
    assume "\<not> 0 < z"
    then have "?y \<le> 0" using round_nonpos [of z] by simp
    with ty t show False by simp
  qed
  have b: "2 powr real_of_int (binade z) \<le> z" "z < 2 powr real_of_int (binade z + 1)"
    using binade_bounds [OF z0] pos by simp_all
  have up: "binade z \<le> 6"
  proof (rule ccontr)
    assume "\<not> binade z \<le> 6"
    then have k: "7 \<le> binade z" by simp
    then have "(2::real) powr real_of_int 7 \<le> 2 powr real_of_int (binade z)"
      by (simp only: powr_le_cancel_iff [of 2] of_int_le_iff one_less_numeral_iff semiring_norm)
    moreover have "(2::real) powr real_of_int 7 = 128"
      using powr_realpow [of "2::real" 7] by simp
    moreover from round_ge_binade [OF pos] k have "2 powr real_of_int (binade z) \<le> ?y" by simp
    ultimately show False using ty t by simp
  qed
  have low: "6 \<le> binade z"
  proof (rule ccontr)
    assume "\<not> 6 \<le> binade z"
    then have "binade z + 1 \<le> 6" by simp
    then have "(2::real) powr real_of_int (binade z + 1) \<le> 2 powr real_of_int 6"
      by (simp only: powr_le_cancel_iff [of 2] of_int_le_iff one_less_numeral_iff semiring_norm)
    with b(2) have "z \<le> 2 powr real_of_int 6" by linarith
    from round_le_pow(1) [OF pos this] have "?y \<le> 2 powr real_of_int 6" by simp
    moreover have "(2::real) powr real_of_int 6 = 64"
      using powr_realpow [of "2::real" 6] by simp
    ultimately show False using ty t by simp
  qed
  from up low have "binade z = 6" by simp
  then have "quantum z = 2 powr real_of_int (- 46)" by (simp add: quantum_eq)
  then have q: "quantum z = 1 / 2 ^ 46" by (simp only: pow46)
  from ty obtain R :: int where "t = of_int R * quantum z" by blast
  then have "t = of_int R * (1 / 2 ^ 46)" by (simp only: q)
  then have "t = of_int R / 2 ^ 46" by simp
  then show ?thesis by blast
qed



text \<open>The double nearest to a positive number whose binade is known.\<close>

lemma round64_eval:
  assumes b: "2 powr real_of_int k \<le> x" "x < 2 powr real_of_int (k + 1)"
    and k: "- 1022 \<le> k" "k \<le> 1022"
    and m: "rne (x / 2 powr real_of_int (k - 52)) = m"
  shows "round64 x = Fin (of_int m * 2 powr real_of_int (k - 52))"
proof -
  have pos: "0 < x" using b(1) powr_gt_zero [of 2 "real_of_int k"] by linarith
  then have "binade x = k" using binade_eq [of x k] b by simp
  then have q: "quantum x = 2 powr real_of_int (k - 52)" using k by (simp add: quantum_eq)
  let ?y = "of_int (rne (x / quantum x)) * quantum x"
  have "x \<le> 2 powr real_of_int (k + 1)" using b(2) by simp
  from round_le_pow [OF pos this] k
  have "?y \<le> 2 powr real_of_int (k + 1)" "0 \<le> ?y" by simp_all
  moreover have "real_of_int (k + 1) < 1024" using k by simp
  then have "(2::real) powr real_of_int (k + 1) < 2 powr 1024"
    by (simp only: powr_less_cancel_iff [of 2] one_less_numeral_iff semiring_norm)
  ultimately have "\<bar>?y\<bar> < 2 powr 1024" by linarith
  then have "round64 x = Fin ?y" using pos by (simp add: round64_alt)
  then show ?thesis by (simp only: q m)
qed

lemma pow2_nat: "(2::real) powr real_of_int (int j) = 2 ^ j"
  using powr_realpow [of "2::real" j] by simp

lemma pow2_neg_nat: "(2::real) powr real_of_int (- int j) = 1 / 2 ^ j"
  using powr_realpow [of "2::real" j] by (simp add: powr_minus divide_simps)

lemma round64_mid:
  assumes "2 ^ n \<le> x" "x < 2 * 2 ^ n" "n \<le> 52" "rne (x * 2 ^ (52 - n)) = m"
  shows "round64 x = Fin (of_int m / 2 ^ (52 - n))"
proof -
  have e: "int n - 52 = - int (52 - n)" "int n + 1 = int (Suc n)" using assms(3) by simp_all
  have q: "(2::real) powr real_of_int (int n - 52) = 1 / 2 ^ (52 - n)"
    by (simp only: e pow2_neg_nat)
  have "round64 x = Fin (of_int m * 2 powr real_of_int (int n - 52))"
  proof (rule round64_eval)
    show "2 powr real_of_int (int n) \<le> x" using assms(1) by (simp only: pow2_nat)
    show "x < 2 powr real_of_int (int n + 1)" using assms(2) by (simp only: e pow2_nat) simp
    show "- 1022 \<le> int n" "int n \<le> 1022" using assms(3) by simp_all
    show "rne (x / 2 powr real_of_int (int n - 52)) = m" using assms(4) by (simp only: q) simp
  qed
  then show ?thesis by (simp only: q) simp
qed

lemma round64_small:
  assumes "1 / 2 ^ n \<le> x" "x < 2 / 2 ^ n" "0 < n" "n \<le> 1022" "rne (x * 2 ^ (n + 52)) = m"
  shows "round64 x = Fin (of_int m / 2 ^ (n + 52))"
proof -
  have e: "- int n - 52 = - int (n + 52)" "- int n + 1 = - int (n - 1)" using assms(3) by simp_all
  have q: "(2::real) powr real_of_int (- int n - 52) = 1 / 2 ^ (n + 52)"
    by (simp only: e pow2_neg_nat)
  have h: "(2::real) / 2 ^ n = 1 / 2 ^ (n - 1)"
    using assms(3) by (cases n) simp_all
  have "round64 x = Fin (of_int m * 2 powr real_of_int (- int n - 52))"
  proof (rule round64_eval)
    show "2 powr real_of_int (- int n) \<le> x" using assms(1) by (simp only: pow2_neg_nat)
    show "x < 2 powr real_of_int (- int n + 1)" using assms(2) by (simp only: e pow2_neg_nat h)
    show "- 1022 \<le> - int n" "- int n \<le> 1022" using assms(4) by simp_all
    show "rne (x / 2 powr real_of_int (- int n - 52)) = m" using assms(5) by (simp only: q) simp
  qed
  then show ?thesis by (simp only: q) simp
qed

lemma tenth_literal: "round64 (1 / 10) = Fin (3602879701896397 / 2 ^ 55)"
proof -
  have "round64 (1 / 10) = Fin (of_int 7205759403792794 / 2 ^ (4 + 52))"
    by (rule round64_small) (simp_all add: rne_def)
  then show ?thesis by simp
qed



lemma tenth_grid:
  "(real_of_int n / 2 ^ 46 < 3602879701896397 / 2 ^ 55) = (real_of_int n / 2 ^ 46 \<le> 1 / 10)"
proof -
  have "(real_of_int n / 2 ^ 46 < 3602879701896397 / 2 ^ 55) = (real_of_int n * 512 < 3602879701896397)"
    by (simp add: field_simps)
  also have "\<dots> = (n \<le> 7036874417766)" by linarith
  also have "\<dots> = (real_of_int n * 10 \<le> 70368744177664)" by linarith
  also have "\<dots> = (real_of_int n / 2 ^ 46 \<le> 1 / 10)" by (simp add: field_simps)
  finally show ?thesis .
qed

lemma tenth_off_grid: "real_of_int n / 2 ^ 46 \<noteq> 1 / 10"
proof
  assume "real_of_int n / 2 ^ 46 = 1 / 10"
  then have "real_of_int n * 10 = 70368744177664" by (simp add: field_simps)
  then have "real_of_int (n * 10) = real_of_int 70368744177664" by simp
  then have "n * 10 = 70368744177664" by (simp only: of_int_eq_iff)
  then show False by presburger
qed

lemma abs_grid: "\<bar>real_of_int k / 2 ^ 46\<bar> = real_of_int \<bar>k\<bar> / 2 ^ 46"
  by simp

lemma tenth_le: "(3602879701896397::real) / 2 ^ 55 \<le> 1"
  by simp

lemma js_sub64_Fin: "js_sub64 (Fin a) (Fin b) = round64 (a - b)"
  by (simp add: js_sub64_def js_sub_def)

lemma js_add64_Fin: "js_add64 (Fin a) (Fin b) = round64 (a + b)"
  by (simp add: js_add64_def)

text \<open>
  The test of app.js 320 on a double \<open>t\<close>: the difference \<open>t - 100\<close> is computed
  without error when it is small, and no double lies between one tenth and the
  double nearest to it.
\<close>

lemma deviation_test:
  assumes "round64 z = Fin t"
  shows "js_lt (js_abs (js_sub64 (Fin t) (Fin 100))) (round64 (1 / 10)) = (\<bar>t - 100\<bar> \<le> 1 / 10)"
    and "\<bar>t - 100\<bar> \<noteq> 1 / 10"
proof -
  have grid: "\<exists>n::int. \<bar>t - 100\<bar> = of_int n / 2 ^ 46 \<and> round64 (t - 100) = Fin (t - 100)"
    if small: "\<bar>t - 100\<bar> < 1"
  proof -
    from small have "99 < t" "t < 101" by simp_all
    from round64_grid [OF assms this] obtain m :: int where m: "t = of_int m / 2 ^ 46" by blast
    then have d: "t - 100 = of_int (m - 7036874417766400) / 2 ^ 46" by (simp add: field_simps)
    from d small have "round64 (t - 100) = Fin (t - 100)" by (rule round64_grid_exact)
    moreover have "\<bar>t - 100\<bar> = of_int \<bar>m - 7036874417766400\<bar> / 2 ^ 46"
      by (simp only: d abs_grid)
    ultimately show ?thesis by blast
  qed
  show "js_lt (js_abs (js_sub64 (Fin t) (Fin 100))) (round64 (1 / 10)) = (\<bar>t - 100\<bar> \<le> 1 / 10)"
  proof (cases "\<bar>t - 100\<bar> < 1")
    case True
    from grid [OF True] obtain n :: int where
      n: "\<bar>t - 100\<bar> = of_int n / 2 ^ 46" "round64 (t - 100) = Fin (t - 100)" by blast
    have "js_lt (js_abs (js_sub64 (Fin t) (Fin 100))) (round64 (1 / 10)) = (\<bar>t - 100\<bar> < 3602879701896397 / 2 ^ 55)"
      by (simp only: js_sub64_Fin n(2) tenth_literal js_abs.simps js_lt.simps)
    also have "\<dots> = (\<bar>t - 100\<bar> \<le> 1 / 10)" by (simp only: n(1) tenth_grid)
    finally show ?thesis .
  next
    case False
    then have big: "1 \<le> \<bar>t - 100\<bar>" by simp
    from round64_big [OF big tenth_le]
    have "\<not> js_lt (js_abs (js_sub64 (Fin t) (Fin 100))) (round64 (1 / 10))"
      by (simp only: js_sub64_Fin tenth_literal) simp
    moreover from big have "\<not> \<bar>t - 100\<bar> \<le> 1 / 10" by simp
    ultimately show ?thesis by simp
  qed
  show "\<bar>t - 100\<bar> \<noteq> 1 / 10"
  proof
    assume e: "\<bar>t - 100\<bar> = 1 / 10"
    then have "\<bar>t - 100\<bar> < 1" by simp
    from grid [OF this] obtain n :: int where "\<bar>t - 100\<bar> = of_int n / 2 ^ 46" by blast
    with e tenth_off_grid [of n] show False by simp
  qed
qed

text \<open>A finite total is the rounded result of the last addition.\<close>

lemma totalWeight_rounded:
  assumes "totalWeight w = Fin t"
  shows "\<exists>z. round64 z = Fin t"
proof -
  let ?p = "js_add64 (js_add64 (fcfe w) (fcff w)) (justified_pe w)"
  from assms have a: "js_add64 ?p (justified_pb w) = Fin t" by (simp add: totalWeight_def)
  show ?thesis
  proof (cases "js_add ?p (justified_pb w)")
    case (Fin r)
    with a have "round64 r = Fin t" by (simp add: js_add64_def)
    then show ?thesis by blast
  qed (use a in \<open>simp_all add: js_add64_def\<close>)
qed




lemma literal_33_3: "round64 (333 / 10) = Fin (2343279181116211 / 2 ^ 46)"
proof -
  have "round64 (333 / 10) = Fin (of_int 4686558362232422 / 2 ^ (52 - 5))"
    by (rule round64_mid) (simp_all add: rne_def)
  then show ?thesis by simp
qed


text \<open>
  Sliders at 0, 33.3, 33.3 and 33.3: the total computed is 7029837543348633 / 2^46,
  which is 99.89999999999999 and lies more than one tenth below 100.
\<close>

lemma total_thirds: "totalWeight thirds_weights = Fin (7029837543348633 / 2 ^ 46)"
proof -
  have a: "round64 (0 + 2343279181116211 / 2 ^ 46) = Fin (of_int 4686558362232422 / 2 ^ (52 - 5))"
    by (rule round64_mid) (simp_all add: rne_def)
  have b: "round64 (4686558362232422 / 2 ^ 47 + 2343279181116211 / 2 ^ 46) =
      Fin (of_int 4686558362232422 / 2 ^ (52 - 6))"
    by (rule round64_mid) (simp_all add: rne_def)
  have c: "round64 (4686558362232422 / 2 ^ 46 + 2343279181116211 / 2 ^ 46) =
      Fin (of_int 7029837543348633 / 2 ^ (52 - 6))"
    by (rule round64_mid) (simp_all add: rne_def)
  show ?thesis using a b c by (simp add: totalWeight_def thirds_weights_def literal_33_3 js_add64_Fin)
qed

section \<open>Lemmas on the total of the weights\<close>

text \<open>
  The class that \<open>updateTotalWeight\<close> sets, in terms of the total it computed: the
  test \<open>Math.abs(total - 100) < 0.1\<close> on doubles holds exactly when the total is
  within one tenth of 100, and no total is exactly one tenth away.
\<close>

lemma updateTotalWeight_flag:
  assumes "document (s::app) ''total-weight'' \<noteq> None"
    and "totalWeight (modelWeights s) = Fin t"
  shows "\<exists>s'. updateTotalWeight s = Done s' \<and>
     map_option content (document s' ''total-weight'') = Some [Fixed (Fin t) 1] \<and>
     map_option className (document s' ''total-weight'') =
       Some (if 1 / 10 < \<bar>t - 100\<bar> then ''weight-total-incorrect''
             else ''weight-total-correct'')"
    and "\<bar>t - 100\<bar> \<noteq> 1 / 10"
proof -
  from totalWeight_rounded [OF assms(2)] obtain z where z: "round64 z = Fin t" by blast
  from deviation_test(1) [OF z]
  have c: "(if js_lt (js_abs (js_sub64 (Fin t) (Fin 100))) (round64 (1 / 10))
            then ''weight-total-correct'' else ''weight-total-incorrect'') =
           (if 1 / 10 < \<bar>t - 100\<bar> then ''weight-total-incorrect''
            else ''weight-total-correct'')"
    by (simp only: not_less [symmetric] if_not_P if_P split: if_split) simp
  from updateTotalWeight_effect [OF assms(1)] obtain s' where
    "updateTotalWeight s = Done s'"
    "map_option className (document s' ''total-weight'') =
       Some (if js_lt (js_abs (js_sub64 (totalWeight (modelWeights s)) (Fin 100))) (round64 (1 / 10))
             then ''weight-total-correct'' else ''weight-total-incorrect'')"
    "map_option content (document s' ''total-weight'') = Some [Fixed (totalWeight (modelWeights s)) 1]"
    by blast
  then show "\<exists>s'. updateTotalWeight s = Done s' \<and>
     map_option content (document s' ''total-weight'') = Some [Fixed (Fin t) 1] \<and>
     map_option className (document s' ''total-weight'') =
       Some (if 1 / 10 < \<bar>t - 100\<bar> then ''weight-total-incorrect''
             else ''weight-total-correct'')"
    by (simp only: assms(2) c) blast
  from deviation_test(2) [OF z] show "\<bar>t - 100\<bar> \<noteq> 1 / 10" .
qed

text \<open>
  The sample session with the sliders at 0, 33.3, 33.3 and 33.3, which the page
  shows as a total of 99.9: flagged incorrect.
\<close>

lemma thirds_flagged_incorrect:
  "\<exists>s'. updateTotalWeight (held_session\<lparr>modelWeights := thirds_weights\<rparr>) = Done s' \<and>
     map_option content (document s' ''total-weight'') =
       Some [Fixed (Fin (7029837543348633 / 2 ^ 46)) 1] \<and>
     map_option className (document s' ''total-weight'') = Some ''weight-total-incorrect''"
proof -
  let ?s = "held_session\<lparr>modelWeights := thirds_weights\<rparr>"
  have p: "document ?s ''total-weight'' \<noteq> None"
    using index_page_ids held_session_page(1) by simp
  have t: "totalWeight (modelWeights ?s) = Fin (7029837543348633 / 2 ^ 46)"
    by (simp add: total_thirds)
  from updateTotalWeight_flag(1) [OF p t] show ?thesis by simp
qed

section \<open>The formatters\<close>

text \<open>
  Claim C10. For the value 0 each of \<open>formatCurrency\<close>, \<open>formatNumber\<close> and
  \<open>formatPercent\<close> yields the placeholder \<open>--\<close>, whatever the platform formatters
  print, and that is the very text they yield for a missing value and for NaN.
\<close>

theorem formatters_zero_is_placeholder:
  "render B (formatCurrency (Num (Fin 0))) = ''--'' \<and>
   render B (formatNumber (Num (Fin 0))) = ''--'' \<and>
   render B (formatPercent (Num (Fin 0))) = ''--'' \<and>
   formatCurrency (Num (Fin 0)) = formatCurrency Undefined \<and>
   formatCurrency (Num (Fin 0)) = formatCurrency (Num NaN) \<and>
   formatNumber (Num (Fin 0)) = formatNumber Undefined \<and>
   formatNumber (Num (Fin 0)) = formatNumber (Num NaN) \<and>
   formatPercent (Num (Fin 0)) = formatPercent Undefined \<and>
   formatPercent (Num (Fin 0)) = formatPercent (Num NaN)"
  by (simp add: render_def formatCurrency_def formatNumber_def formatPercent_def isNaN_def)

text \<open>An instance, with formatters that print nothing.\<close>

theorem formatters_zero_is_placeholder_witness:
  "render blank_builtins (formatCurrency (Num (Fin 0))) = ''--'' \<and>
   render blank_builtins (formatNumber (Num (Fin 0))) = ''--'' \<and>
   render blank_builtins (formatPercent (Num (Fin 0))) = ''--'' \<and>
   formatPercent (Num (Fin 0)) = formatPercent Undefined"
  using formatters_zero_is_placeholder [of blank_builtins] by blast

section \<open>The upside percentage\<close>

text \<open>
  Claim C6. For a current price \<open>c\<close> other than zero and a target price \<open>t\<close>, both
  finite, the upside is \<open>(t - c) / c * 100\<close>; for 110000 against 100000 it is 10,
  for 90000 against 100000 it is -10.
\<close>

theorem upside_formula:
  "(c \<noteq> 0 \<longrightarrow> computeUpsidePercent (Fin t) (Fin c) = Fin ((t - c) / c * 100)) \<and>
   computeUpsidePercent (Fin 110000) (Fin 100000) = Fin 10 \<and>
   computeUpsidePercent (Fin 90000) (Fin 100000) = Fin (- 10)"
  by (simp add: computeUpsidePercent_def js_sub_def)

theorem upside_formula_witness:
  "(100000::real) \<noteq> 0 \<and>
   computeUpsidePercent (Fin 110000) (Fin 100000) = Fin ((110000 - 100000) / 100000 * 100)"
  using upside_formula [of 100000 110000] by simp

text \<open>
  Claim C5, as the specification states it: with a current price of zero the upside
  computation signals an error instead of yielding Infinity or NaN. It does not: in
  the sample session with a price of zero \<open>updateWeightedResults\<close> runs to its end
  and hands Infinity to \<open>toFixed\<close> for the text of \<open>weighted-diff\<close>.
\<close>

theorem zero_price_no_error_counterexample:
  "computeUpsidePercent (Fin 98750) (Fin 0) = PInf \<and>
   \<not> threw (updateWeightedResults zero_price_session) \<and>
   map_option content (document (state_of (updateWeightedResults zero_price_session))
       ''weighted-diff'') = Some [Lit ''+'', Fixed PInf 1, Lit ''%'']"
proof -
  have up: "computeUpsidePercent (Fin 98750) (Fin 0) = PInf"
    by (simp add: computeUpsidePercent_def js_sub_def)
  have st: "stockData zero_price_session =
      Some (vnm_stock\<lparr>num := (num vnm_stock)(''current_price'' := Num (Fin 0))\<rparr>)"
    by (simp add: zero_price_session_def)
  from updateWeightedResults_effect [OF held_session_fields(4) st]
  obtain s' where s': "updateWeightedResults zero_price_session = Done s'"
    "map_option content (document s' ''weighted-diff'') =
       Some (signedPercent (computeUpsidePercent (toNumber (weighted_average vnm_results))
          (toNumber (num (vnm_stock\<lparr>num := (num vnm_stock)(''current_price'' := Num (Fin 0))\<rparr>)
             ''current_price''))))"
    using index_page_ids held_session_page by auto
  have "weighted_average vnm_results = Num (Fin 98750)" by (simp add: vnm_results_def)
  then show ?thesis using up s' by (simp add: signedPercent_def js_gt_def)
qed

text \<open>
  Claim C5, amended. With a current price of zero the upside of a finite target
  \<open>x\<close> is Infinity when \<open>x\<close> is positive, -Infinity when it is negative and NaN
  when it is zero; nothing is thrown, and \<open>updateWeightedResults\<close> writes that value,
  formatted by \<open>toFixed\<close>, to \<open>weighted-diff\<close>.
\<close>

theorem zero_price_upside_not_finite:
  assumes "valuationResults s = Some results" and "stockData s = Some stock"
    and "num stock ''current_price'' = Num (Fin 0)"
    and "weighted_average results = Num (Fin x)"
    and "document s ''weighted-result'' \<noteq> None" and "document s ''weighted-diff'' \<noteq> None"
  shows "computeUpsidePercent (Fin x) (Fin 0) =
           (if 0 < x then PInf else if x < 0 then NInf else NaN) \<and>
         (\<exists>s'. updateWeightedResults s = Done s' \<and>
            map_option content (document s' ''weighted-diff'') =
              Some (signedPercent (computeUpsidePercent (Fin x) (Fin 0))))"
proof -
  have "computeUpsidePercent (Fin x) (Fin 0) =
           (if 0 < x then PInf else if x < 0 then NInf else NaN)"
    by (simp add: computeUpsidePercent_def js_sub_def)
  moreover from updateWeightedResults_effect [OF assms(1,2,5,6)]
  have "\<exists>s'. updateWeightedResults s = Done s' \<and>
            map_option content (document s' ''weighted-diff'') =
              Some (signedPercent (computeUpsidePercent (Fin x) (Fin 0)))"
    using assms(3,4) by auto
  ultimately show ?thesis by blast
qed

theorem zero_price_upside_not_finite_witness:
  "valuationResults zero_price_session = Some vnm_results \<and>
   weighted_average vnm_results = Num (Fin 98750) \<and>
   computeUpsidePercent (Fin 98750) (Fin 0) = PInf \<and>
   (\<exists>s'. updateWeightedResults zero_price_session = Done s' \<and>
      map_option content (document s' ''weighted-diff'') =
        Some (signedPercent (computeUpsidePercent (Fin 98750) (Fin 0))))"
proof -
  have st: "stockData zero_price_session =
      Some (vnm_stock\<lparr>num := (num vnm_stock)(''current_price'' := Num (Fin 0))\<rparr>)"
    by (simp add: zero_price_session_def)
  have w: "weighted_average vnm_results = Num (Fin 98750)" by (simp add: vnm_results_def)
  have p: "document zero_price_session ''weighted-result'' \<noteq> None"
    "document zero_price_session ''weighted-diff'' \<noteq> None"
    using index_page_ids held_session_page by simp_all
  have z: "num (vnm_stock\<lparr>num := (num vnm_stock)(''current_price'' := Num (Fin 0))\<rparr>)
      ''current_price'' = Num (Fin 0)" by simp
  from zero_price_upside_not_finite [OF held_session_fields(4) st z w p]
  show ?thesis using w by (auto simp add: held_session_fields)
qed

section \<open>The threshold classifier\<close>

text \<open>
  Claim C3. On a finite upside \<open>u\<close> the classifier answers BUY exactly when
  \<open>u > 15\<close>, SELL exactly when \<open>u < -15\<close> and HOLD otherwise; 15 and -15 are both
  HOLD. Infinity is BUY, -Infinity is SELL and NaN is HOLD. Each answer comes with
  its own status and reasoning.
\<close>

theorem classify_thresholds:
  "(recommendation (classifyRecommendation (Fin u)) = ''BUY'') = (15 < u) \<and>
   (recommendation (classifyRecommendation (Fin u)) = ''SELL'') = (u < - 15) \<and>
   (recommendation (classifyRecommendation (Fin u)) = ''HOLD'') = (- 15 \<le> u \<and> u \<le> 15) \<and>
   recommendation (classifyRecommendation (Fin 15)) = ''HOLD'' \<and>
   recommendation (classifyRecommendation (Fin (- 15))) = ''HOLD'' \<and>
   recommendation (classifyRecommendation (Fin 16)) = ''BUY'' \<and>
   recommendation (classifyRecommendation (Fin (- 16))) = ''SELL'' \<and>
   recommendation (classifyRecommendation PInf) = ''BUY'' \<and>
   recommendation (classifyRecommendation NInf) = ''SELL'' \<and>
   recommendation (classifyRecommendation NaN) = ''HOLD'' \<and>
   classifyRecommendation x \<in>
     {\<lparr>recommendation = ''BUY'', status = ''positive'',
       reasoning = [Lit ''Significant undervaluation detected - upside potential above 15%'']\<rparr>,
      \<lparr>recommendation = ''SELL'', status = ''negative'',
       reasoning = [Lit ''Significant overvaluation detected - downside risk above 15%'']\<rparr>,
      \<lparr>recommendation = ''HOLD'', status = ''neutral'',
       reasoning = [Lit ''Stock is fairly valued - upside/downside within 15% range'']\<rparr>}"
  by (auto simp add: classifyRecommendation_def js_gt_def)

theorem classify_thresholds_witness:
  "\<not> (15 < (15::real)) \<and> recommendation (classifyRecommendation (Fin 15)) \<noteq> ''BUY'' \<and>
   (- 15 \<le> (15::real) \<and> (15::real) \<le> 15) \<and>
   recommendation (classifyRecommendation (Fin 15)) = ''HOLD''"
  using classify_thresholds [of 15 NaN] by simp

section \<open>A failed load\<close>

text \<open>
  Claim C7. When a load fails - a request is rejected by the network or aborted by
  the timer, the stock request returns a status that is not OK, a body does not
  parse, or the stock data say \<open>success: false\<close> - the session afterwards holds no
  current symbol, no stock data, no historical series and no valuation results;
  the assumptions and the weights stay as they were. The page is assumed to have
  the five elements that the action addresses without a guard, as \<open>index.html\<close>
  does.
\<close>

theorem load_failure_clears_session:
  assumes page: "\<forall>i\<in>{''load-data-btn'', ''status-message'', ''recommendation'',
                     ''final-recommendation'', ''export-report-btn''}. document (s::app) i \<noteq> None"
    and sym: "symbol \<noteq> []"
    and fails: "load_fails stockFetch chartFetch"
  shows "currentStock (state_of (loadStockData symbol stockFetch chartFetch s)) = None \<and>
         stockData (state_of (loadStockData symbol stockFetch chartFetch s)) = None \<and>
         historicalData (state_of (loadStockData symbol stockFetch chartFetch s)) = None \<and>
         valuationResults (state_of (loadStockData symbol stockFetch chartFetch s)) = None \<and>
         assumptions (state_of (loadStockData symbol stockFetch chartFetch s)) = assumptions s \<and>
         modelWeights (state_of (loadStockData symbol stockFetch chartFetch s)) = modelWeights s"
proof -
  let ?J = "{''load-data-btn'', ''status-message''}"
  let ?pre = "seq [showLoading True, showStatus [Lit ''Loading data...''] ''info'']"
  have each: "\<And>f. f \<in> set [showLoading True, showStatus [Lit ''Loading data...''] ''info'']
      \<Longrightarrow> page_only ?J f \<and> completes ?J f"
  proof -
    fix f assume "f \<in> set [showLoading True, showStatus [Lit ''Loading data...''] ''info'']"
    then consider "f = showLoading True" | "f = showStatus [Lit ''Loading data...''] ''info''"
      by auto
    then show "page_only ?J f \<and> completes ?J f"
    proof cases
      case 1
      have "completes ?J (showLoading True)"
        using showLoading_completes [of True] unfolding completes_def by simp
      then show ?thesis using 1 page_only_mono [OF showLoading_page_only [of True], of ?J] by simp
    next
      case 2
      have "completes ?J (showStatus [Lit ''Loading data...''] ''info'')"
        using showStatus_completes [of "[Lit ''Loading data...'']" "''info''"]
        unfolding completes_def by simp
      then show ?thesis
        using 2 page_only_mono [OF showStatus_page_only [of "[Lit ''Loading data...'']" "''info''"], of ?J]
        by simp
    qed
  qed
  have po: "page_only ?J ?pre" using each by (blast intro: page_only_seq)
  have co: "completes ?J ?pre" using each by (rule completes_seq)
  have pg: "\<forall>i\<in>?J. document s i \<noteq> None" using page by simp
  from run_page_only [OF po co pg] obtain sa where
    sa: "?pre s = Done sa" "touches ?J s sa" by blast
  from load_try_fails [OF fails, of symbol sa] obtain e rq where
    tr: "load_try symbol stockFetch chartFetch sa = Threw e (sa\<lparr>requests := rq\<rparr>)" by blast
  let ?s2 = "sa\<lparr>requests := rq\<rparr>"
  have pg2: "\<forall>i\<in>{''status-message'', ''recommendation'', ''final-recommendation'',
               ''export-report-btn''}. document ?s2 i \<noteq> None"
    using page touches_fields(10) [OF sa(2)] by simp
  from load_catch_clears [OF pg2, of e] obtain d c where
    lc: "state_of (load_catch e ?s2) =
            ?s2\<lparr>stockData := None, currentStock := None, historicalData := None,
              valuationResults := None, document := d, charts := c\<rparr>" by blast
  let ?r = "tryCatch (load_try symbol stockFetch chartFetch sa) load_catch"
  have r: "state_of ?r = ?s2\<lparr>stockData := None, currentStock := None, historicalData := None,
              valuationResults := None, document := d, charts := c\<rparr>"
    using tr lc by (simp add: tryCatch_def)
  have fin: "state_of (loadStockData symbol stockFetch chartFetch s) =
      state_of (showLoading False (state_of ?r))"
    using sym sa(1) by (simp add: loadStockData_def andThen_def state_of_tryFinally)
  have "touches {''load-data-btn''} (state_of ?r) (state_of (showLoading False (state_of ?r)))"
    using showLoading_page_only by (rule page_onlyD)
  from touches_fields(1-6) [OF this] touches_fields(4,5) [OF sa(2)]
  show ?thesis using fin r by simp
qed

text \<open>
  An instance: the sample session, which holds a symbol, stock data and results, and
  a load of another symbol that the timer aborts.
\<close>

theorem load_failure_clears_session_witness:
  "load_fails (Rejected (Exn ''AbortError'' [Lit ''The user aborted a request.'']))
     (Rejected (Exn ''AbortError'' [Lit ''The user aborted a request.''])) \<and>
   valuationResults held_session \<noteq> None \<and>
   currentStock (state_of (loadStockData ''FPT''
     (Rejected (Exn ''AbortError'' [Lit ''The user aborted a request.'']))
     (Rejected (Exn ''AbortError'' [Lit ''The user aborted a request.''])) held_session)) = None \<and>
   stockData (state_of (loadStockData ''FPT''
     (Rejected (Exn ''AbortError'' [Lit ''The user aborted a request.'']))
     (Rejected (Exn ''AbortError'' [Lit ''The user aborted a request.''])) held_session)) = None \<and>
   historicalData (state_of (loadStockData ''FPT''
     (Rejected (Exn ''AbortError'' [Lit ''The user aborted a request.'']))
     (Rejected (Exn ''AbortError'' [Lit ''The user aborted a request.''])) held_session)) = None \<and>
   valuationResults (state_of (loadStockData ''FPT''
     (Rejected (Exn ''AbortError'' [Lit ''The user aborted a request.'']))
     (Rejected (Exn ''AbortError'' [Lit ''The user aborted a request.''])) held_session)) = None"
proof -
  have page: "\<forall>i\<in>{''load-data-btn'', ''status-message'', ''recommendation'',
                     ''final-recommendation'', ''export-report-btn''}.
                document held_session i \<noteq> None"
    using index_page_ids held_session_page by simp
  have fails: "load_fails (Rejected (Exn ''AbortError'' [Lit ''The user aborted a request.'']))
     (Rejected (Exn ''AbortError'' [Lit ''The user aborted a request.'']))"
    by (simp add: load_fails_def)
  have sym: "''FPT'' \<noteq> []" by simp
  from load_failure_clears_session [OF page sym fails] fails show ?thesis
    by (simp add: held_session_fields)
qed

section \<open>A change of weights\<close>

text \<open>
  Claim C1, as the specification states it: after a calculation, a change of weights
  recomputes the weighted average from the per-model values the session holds. It
  does not. In the sample session, moving the FCFE slider to 50 makes the weights
  50, 25, 25 and 25, for which the weighted sum of the held per-model values is
  123750 and its upside of 23.75 percent a BUY; the page still shows the 98750 the
  engine returned for the old weights, and HOLD.
\<close>

theorem weight_change_keeps_engine_average_counterexample:
  "valuationResults held_session = Some vnm_results \<and>
   modelWeights (state_of (updateModelWeights fcfe_to_50 held_session)) =
     \<lparr>fcfe = Fin 50, fcff = Fin 25, justified_pe = Fin 25, justified_pb = Fin 25\<rparr> \<and>
   computeWeightedAverage vnm_results
     \<lparr>fcfe = Fin 50, fcff = Fin 25, justified_pe = Fin 25, justified_pb = Fin 25\<rparr> = Fin 123750 \<and>
   map_option content (document (state_of (updateModelWeights fcfe_to_50 held_session))
     ''weighted-result'') = Some [Currency (Fin 98750)] \<and>
   map_option content (document (state_of (updateModelWeights fcfe_to_50 held_session))
     ''recommendation'') = Some (statusSpan ''neutral'' ''HOLD'') \<and>
   recommendation (classifyRecommendation (computeUpsidePercent (Fin 123750) (Fin 100000))) =
     ''BUY''"
proof -
  from weight_change_effect [OF held_session_fields(3,5) held_verdict held_page_all(1),
      of fcfe_to_50]
  obtain s' where s': "updateModelWeights fcfe_to_50 held_session = Done s'"
    "shows_held vnm_results vnm_stock
       \<lparr>recommendation = ''HOLD'', status = ''neutral'',
         reasoning = [Lit ''Stock is fairly valued - upside/downside within 15% range'']\<rparr> s'"
    by blast
  have w: "modelWeights (state_of (updateModelWeights fcfe_to_50 held_session)) =
     \<lparr>fcfe = Fin 50, fcff = Fin 25, justified_pe = Fin 25, justified_pb = Fin 25\<rparr>"
    using touches_fields(5) [OF weight_change_frame [where s = held_session and ev = fcfe_to_50]]
    by (simp add: fcfe_to_50_def held_session_fields)
  have a: "computeWeightedAverage vnm_results
     \<lparr>fcfe = Fin 50, fcff = Fin 25, justified_pe = Fin 25, justified_pb = Fin 25\<rparr> = Fin 123750"
    by (simp add: computeWeightedAverage_def contribution_def vnm_results_def)
  have b: "recommendation (classifyRecommendation (computeUpsidePercent (Fin 123750) (Fin 100000)))
     = ''BUY''"
    by (simp add: classifyRecommendation_def computeUpsidePercent_def js_sub_def js_gt_def)
  have c: "formatCurrency (weighted_average vnm_results) = [Currency (Fin 98750)]"
    by (simp add: formatCurrency_def vnm_results_def isNaN_def)
  show ?thesis using s' w a b c by (simp add: shows_held_def held_session_fields)
qed

text \<open>
  Claim C1, amended. In a session that holds results and stock data, a change of
  weights - a slider event or the normalize action - sends no request and leaves the
  held results as they are. It writes again the weighted result, the upside and the
  recommendation, all taken from the \<open>weighted_average\<close> that the engine returned
  and the session holds, and from the current price: what is shown does not depend
  on the weights. In any session \<open>t\<close> whatever, the two actions send no request
  and leave the held results as they are.
\<close>

theorem weight_change_reuses_held_average:
  assumes "valuationResults s = Some results" and "stockData s = Some stock"
    and "chooseRecommendation results (num stock ''current_price'') = Some v"
    and "\<forall>i\<in>{''fcfe-weight-value'', ''fcff-weight-value'', ''pe-weight-value'',
        ''pb-weight-value'', ''total-weight'', ''weighted-result'', ''weighted-diff'',
        ''recommendation'', ''final-recommendation''}. document s i \<noteq> None"
    and "\<forall>i\<in>{''fcfe-weight'', ''fcff-weight'', ''pe-weight'', ''pb-weight''}.
        document s i \<noteq> None"
  shows "(\<exists>s'. updateModelWeights ev s = Done s' \<and> requests s' = requests s \<and>
            valuationResults s' = Some results \<and> shows_held results stock v s') \<and>
         (\<exists>s'. normalizeWeights s = Done s' \<and> requests s' = requests s \<and>
            valuationResults s' = Some results \<and> shows_held results stock v s') \<and>
         requests (state_of (updateModelWeights ev t)) = requests t \<and>
         valuationResults (state_of (updateModelWeights ev t)) = valuationResults t \<and>
         requests (state_of (normalizeWeights t)) = requests t \<and>
         valuationResults (state_of (normalizeWeights t)) = valuationResults t"
proof -
  note a = touches_fields(6,9) [OF weight_change_frame [where s = t and ev = ev]]
  note b = touches_fields(6,9) [OF normalize_frame [where s = t]]
  from weight_change_effect [OF assms(1-4)] normalize_effect [OF assms] a b
  show ?thesis by simp
qed

text \<open>An instance: the sample session, the FCFE slider moved to 50, and normalize.\<close>

theorem weight_change_reuses_held_average_witness:
  "valuationResults held_session = Some vnm_results \<and>
   stockData held_session = Some vnm_stock \<and>
   (\<exists>s'. updateModelWeights fcfe_to_50 held_session = Done s' \<and>
      requests s' = requests held_session \<and>
      valuationResults s' = Some vnm_results \<and>
      map_option content (document s' ''weighted-result'') = Some [Currency (Fin 98750)]) \<and>
   (\<exists>s'. normalizeWeights held_session = Done s' \<and>
      requests s' = requests held_session \<and>
      valuationResults s' = Some vnm_results \<and>
      map_option content (document s' ''weighted-result'') = Some [Currency (Fin 98750)])"
proof -
  have c: "formatCurrency (weighted_average vnm_results) = [Currency (Fin 98750)]"
    by (simp add: formatCurrency_def vnm_results_def isNaN_def)
  from weight_change_reuses_held_average
    [OF held_session_fields(3,5) held_verdict held_page_all, where ev = fcfe_to_50 and t = held_session]
  show ?thesis using c by (auto simp add: shows_held_def held_session_fields)
qed

section \<open>The recommendation of the engine\<close>

text \<open>
  Claim C4. When the held results carry a \<open>market_comparison\<close> with a
  recommendation \<open>r\<close>, the recommendation shown is \<open>r\<close> itself; its status is
  positive when \<open>r\<close> contains BUY, else negative when it contains SELL, else
  neutral, whatever the upside; and \<open>updateRecommendation\<close> writes
  \<open><span class="status status--STATUS">r</span>\<close> into both recommendation elements.
  The threshold classifier decides only when there is no \<open>market_comparison\<close>.
\<close>

theorem engine_recommendation_preferred:
  assumes "valuationResults s = Some results" and "stockData s = Some stock"
    and "market_comparison results = Some mc" and "mc_recommendation mc = Some r"
    and "document s ''recommendation'' \<noteq> None" and "document s ''final-recommendation'' \<noteq> None"
  shows "(\<exists>v s'. chooseRecommendation results (num stock ''current_price'') = Some v \<and>
            recommendation v = r \<and>
            status v = (if (\<exists>p q. r = p @ ''BUY'' @ q) then ''positive''
                        else if (\<exists>p q. r = p @ ''SELL'' @ q) then ''negative''
                        else ''neutral'') \<and>
            updateRecommendation s = Done s' \<and>
            map_option content (document s' ''recommendation'') =
              Some [Lit ''<span class=\"status status--'', Lit (status v), Lit ''\">'', Lit r,
                    Lit ''</span>''] \<and>
            map_option content (document s' ''final-recommendation'') =
              Some [Lit ''<span class=\"status status--'', Lit (status v), Lit ''\">'', Lit r,
                    Lit ''</span>''] \<and>
            (\<forall>B. map_option (\<lambda>e. render B (content e)) (document s' ''recommendation'') =
                  Some (''<span class=\"status status--'' @ status v @ ''\">'' @ r @ ''</span>'') \<and>
                 map_option (\<lambda>e. render B (content e)) (document s' ''final-recommendation'') =
                  Some (''<span class=\"status status--'' @ status v @ ''\">'' @ r @ ''</span>''))) \<and>
         (market_comparison other = None \<longrightarrow>
            chooseRecommendation other price =
              Some (classifyRecommendation
                (computeUpsidePercent (toNumber (weighted_average other)) (toNumber price))))"
proof -
  let ?v = "\<lparr>recommendation = r,
             status = (if js_includes r ''BUY'' then ''positive''
                       else if js_includes r ''SELL'' then ''negative'' else ''neutral''),
             reasoning = [Lit ''Based on 4-model average of '']
                         @ formatCurrency (weighted_average results)
                         @ [Lit '' vs current price '']
                         @ formatCurrency (num stock ''current_price'')\<rparr>"
  let ?c = "[Lit ''<span class=\"status status--'', Lit (status ?v), Lit ''\">'', Lit r,
             Lit ''</span>'']"
  have ch: "chooseRecommendation results (num stock ''current_price'') = Some ?v"
    using assms(3,4) by (simp add: chooseRecommendation_def Let_def)
  have st: "status ?v = (if (\<exists>p q. r = p @ ''BUY'' @ q) then ''positive''
                        else if (\<exists>p q. r = p @ ''SELL'' @ q) then ''negative''
                        else ''neutral'')"
    by (simp add: js_includes_def sublist_def)
  have sp: "statusSpan (status ?v) (recommendation ?v) = ?c"
    by (simp add: statusSpan_def)
  have rn: "\<And>B. render B ?c = ''<span class=\"status status--'' @ status ?v @ ''\">'' @ r @ ''</span>''"
    by (simp add: render_def)
  from updateRecommendation_effect [OF assms(1,2) ch assms(5,6)] obtain s' where
    s': "updateRecommendation s = Done s'"
    "map_option content (document s' ''recommendation'') = Some ?c"
    "map_option content (document s' ''final-recommendation'') = Some ?c"
    unfolding sp by blast
  from s'(2) obtain e1 where e1: "document s' ''recommendation'' = Some e1" "content e1 = ?c"
    by (cases "document s' ''recommendation''") simp_all
  from s'(3) obtain e2 where e2: "document s' ''final-recommendation'' = Some e2" "content e2 = ?c"
    by (cases "document s' ''final-recommendation''") simp_all
  have shown: "\<forall>B. map_option (\<lambda>e. render B (content e)) (document s' ''recommendation'') =
                  Some (''<span class=\"status status--'' @ status ?v @ ''\">'' @ r @ ''</span>'') \<and>
                 map_option (\<lambda>e. render B (content e)) (document s' ''final-recommendation'') =
                  Some (''<span class=\"status status--'' @ status ?v @ ''\">'' @ r @ ''</span>'')"
    by (simp only: e1 e2 option.map rn) simp
  have rv: "recommendation ?v = r" by simp
  have first: "\<exists>v s'. chooseRecommendation results (num stock ''current_price'') = Some v \<and>
            recommendation v = r \<and>
            status v = (if (\<exists>p q. r = p @ ''BUY'' @ q) then ''positive''
                        else if (\<exists>p q. r = p @ ''SELL'' @ q) then ''negative''
                        else ''neutral'') \<and>
            updateRecommendation s = Done s' \<and>
            map_option content (document s' ''recommendation'') =
              Some [Lit ''<span class=\"status status--'', Lit (status v), Lit ''\">'', Lit r,
                    Lit ''</span>''] \<and>
            map_option content (document s' ''final-recommendation'') =
              Some [Lit ''<span class=\"status status--'', Lit (status v), Lit ''\">'', Lit r,
                    Lit ''</span>''] \<and>
            (\<forall>B. map_option (\<lambda>e. render B (content e)) (document s' ''recommendation'') =
                  Some (''<span class=\"status status--'' @ status v @ ''\">'' @ r @ ''</span>'') \<and>
                 map_option (\<lambda>e. render B (content e)) (document s' ''final-recommendation'') =
                  Some (''<span class=\"status status--'' @ status v @ ''\">'' @ r @ ''</span>''))"
    apply (rule exI [of _ ?v], rule exI [of _ s'])
    apply (intro conjI)
          apply (rule ch)
         apply (rule rv)
        apply (rule st)
       apply (rule s'(1))
      apply (rule s'(2))
     apply (rule s'(3))
    apply (rule shown)
    done
  have second: "market_comparison other = None \<longrightarrow>
            chooseRecommendation other price =
              Some (classifyRecommendation
                (computeUpsidePercent (toNumber (weighted_average other)) (toNumber price)))"
    by (simp add: chooseRecommendation_def Let_def)
  from first second show ?thesis by blast
qed

text \<open>
  An instance: the engine says STRONG SELL where the thresholds would say HOLD, and
  the page shows STRONG SELL.
\<close>

theorem engine_recommendation_preferred_witness:
  "market_comparison engine_results = Some \<lparr>mc_recommendation = Some ''STRONG SELL''\<rparr> \<and>
   classifyRecommendation (computeUpsidePercent (toNumber (weighted_average engine_results))
      (toNumber (num vnm_stock ''current_price''))) =
     \<lparr>recommendation = ''HOLD'', status = ''neutral'',
      reasoning = [Lit ''Stock is fairly valued - upside/downside within 15% range'']\<rparr> \<and>
   (\<exists>v s'. chooseRecommendation engine_results (num vnm_stock ''current_price'') = Some v \<and>
      recommendation v = ''STRONG SELL'' \<and> status v = ''negative'' \<and>
      updateRecommendation (held_session\<lparr>valuationResults := Some engine_results\<rparr>) = Done s' \<and>
      map_option content (document s' ''recommendation'') =
        Some [Lit ''<span class=\"status status--'', Lit ''negative'', Lit ''\">'',
              Lit ''STRONG SELL'', Lit ''</span>''] \<and>
      map_option (\<lambda>e. render blank_builtins (content e)) (document s' ''recommendation'') =
        Some ''<span class=\"status status--negative\">STRONG SELL</span>'' \<and>
      map_option (\<lambda>e. render blank_builtins (content e)) (document s' ''final-recommendation'') =
        Some ''<span class=\"status status--negative\">STRONG SELL</span>'')"
proof -
  let ?s = "held_session\<lparr>valuationResults := Some engine_results\<rparr>"
  have a: "valuationResults ?s = Some engine_results" "stockData ?s = Some vnm_stock"
    by (simp_all add: held_session_fields)
  have m: "market_comparison engine_results = Some \<lparr>mc_recommendation = Some ''STRONG SELL''\<rparr>"
    "mc_recommendation \<lparr>mc_recommendation = Some ''STRONG SELL''\<rparr> = Some ''STRONG SELL''"
    by (simp_all add: engine_results_def)
  have p: "document ?s ''recommendation'' \<noteq> None" "document ?s ''final-recommendation'' \<noteq> None"
    using index_page_ids held_session_page(1) by simp_all
  have b: "\<not> (\<exists>p q. ''STRONG SELL'' = p @ ''BUY'' @ q)"
    using sublist_def [of "''BUY''" "''STRONG SELL''"] by (simp add: sublist_code)
  have c: "\<exists>p q. ''STRONG SELL'' = p @ ''SELL'' @ q"
    using sublist_def [of "''SELL''" "''STRONG SELL''"] by (simp add: sublist_code)
  have l: "classifyRecommendation (computeUpsidePercent (toNumber (weighted_average engine_results))
      (toNumber (num vnm_stock ''current_price''))) =
     \<lparr>recommendation = ''HOLD'', status = ''neutral'',
      reasoning = [Lit ''Stock is fairly valued - upside/downside within 15% range'']\<rparr>"
    by (simp add: engine_results_def vnm_results_def vnm_stock_def classifyRecommendation_def
        computeUpsidePercent_def js_sub_def js_gt_def)
  from engine_recommendation_preferred [OF a m p, of vnm_results "Num (Fin 100000)"] b c
  obtain v s' where v: "chooseRecommendation engine_results (num vnm_stock ''current_price'') = Some v"
    "recommendation v = ''STRONG SELL''" "status v = ''negative''"
    "updateRecommendation ?s = Done s'"
    "map_option content (document s' ''recommendation'') =
        Some [Lit ''<span class=\"status status--'', Lit (status v), Lit ''\">'',
              Lit ''STRONG SELL'', Lit ''</span>'']"
    "\<forall>B. map_option (\<lambda>e. render B (content e)) (document s' ''recommendation'') =
          Some (''<span class=\"status status--'' @ status v @ ''\">'' @ ''STRONG SELL'' @ ''</span>'') \<and>
         map_option (\<lambda>e. render B (content e)) (document s' ''final-recommendation'') =
          Some (''<span class=\"status status--'' @ status v @ ''\">'' @ ''STRONG SELL'' @ ''</span>'')"
    by auto
  from v(6) have r:
    "map_option (\<lambda>e. render blank_builtins (content e)) (document s' ''recommendation'') =
        Some ''<span class=\"status status--negative\">STRONG SELL</span>''"
    "map_option (\<lambda>e. render blank_builtins (content e)) (document s' ''final-recommendation'') =
        Some ''<span class=\"status status--negative\">STRONG SELL</span>''"
    by (simp_all add: v(3))
  from v(5) have ct: "map_option content (document s' ''recommendation'') =
        Some [Lit ''<span class=\"status status--'', Lit ''negative'', Lit ''\">'',
              Lit ''STRONG SELL'', Lit ''</span>'']"
    by (simp only: v(3))
  show ?thesis
    apply (intro conjI)
      apply (rule m(1))
     apply (rule l)
    apply (rule exI [of _ v], rule exI [of _ s'])
    apply (intro conjI)
          apply (rule v(1))
         apply (rule v(2))
        apply (rule v(3))
       apply (rule v(4))
      apply (rule ct)
     apply (rule r(1))
    apply (rule r(2))
    done
qed

section \<open>A failed calculation\<close>

text \<open>
  Claim C8, as the specification states it: a failed calculation clears the
  weighted-aggregation output and nothing else. It clears nothing: after an HTTP 500
  the sample session still holds its results and the page still shows 98750.
\<close>

theorem failed_calculation_clears_nothing_counterexample:
  "calc_fails (Resolved (Response False 500 None)) \<and>
   valuationResults (state_of (calculateValuation (Resolved (Response False 500 None))
     held_session)) = Some vnm_results \<and>
   map_option content (document (state_of (calculateValuation (Resolved (Response False 500 None))
     held_session)) ''weighted-result'') = Some [Currency (Fin 98750)]"
proof -
  have f: "calc_fails (Resolved (Response False 500 None))" by (simp add: calc_fails_def)
  from calculate_failure_frame [OF f, of held_session] obtain rq where
    t: "touches {''status-message''} (held_session\<lparr>requests := rq\<rparr>)
       (state_of (calculateValuation (Resolved (Response False 500 None)) held_session))"
    by blast
  from touches_fields(6) [OF t] touches_fields(11) [OF t, of "''weighted-result''"] f
  show ?thesis by (simp add: held_session_fields)
qed

text \<open>
  Claim C8, amended. When a calculation fails - the request is rejected, the status
  is not OK, the body does not parse, or it says \<open>success: false\<close> - the current
  symbol, the stock data, the historical series and the held results are as before,
  and so is every element of the page but the status banner.
\<close>

theorem failed_calculation_keeps_session:
  assumes "calc_fails fetchResult"
  shows "currentStock (state_of (calculateValuation fetchResult s)) = currentStock s \<and>
         stockData (state_of (calculateValuation fetchResult s)) = stockData s \<and>
         historicalData (state_of (calculateValuation fetchResult s)) = historicalData s \<and>
         valuationResults (state_of (calculateValuation fetchResult s)) = valuationResults s \<and>
         (\<forall>i. i \<noteq> ''status-message'' \<longrightarrow>
            document (state_of (calculateValuation fetchResult s)) i = document s i)"
proof -
  from calculate_failure_frame [OF assms, of s] obtain rq where
    t: "touches {''status-message''} (s\<lparr>requests := rq\<rparr>)
       (state_of (calculateValuation fetchResult s))" by blast
  from touches_fields(1,2,3,6) [OF t] touches_fields(11) [OF t] show ?thesis by simp
qed

text \<open>An instance: the sample session and an answer with \<open>success: false\<close>.\<close>

theorem failed_calculation_keeps_session_witness:
  "calc_fails (Resolved (Response True 200 (Some (vnm_response\<lparr>vr_success := False\<rparr>)))) \<and>
   currentStock (state_of (calculateValuation
     (Resolved (Response True 200 (Some (vnm_response\<lparr>vr_success := False\<rparr>))))
     held_session)) = Some ''VNM'' \<and>
   stockData (state_of (calculateValuation
     (Resolved (Response True 200 (Some (vnm_response\<lparr>vr_success := False\<rparr>))))
     held_session)) = Some vnm_stock \<and>
   valuationResults (state_of (calculateValuation
     (Resolved (Response True 200 (Some (vnm_response\<lparr>vr_success := False\<rparr>))))
     held_session)) = Some vnm_results \<and>
   ''weighted-result'' \<noteq> ''status-message'' \<and>
   document (state_of (calculateValuation
     (Resolved (Response True 200 (Some (vnm_response\<lparr>vr_success := False\<rparr>))))
     held_session)) ''weighted-result'' = document held_session ''weighted-result''"
proof -
  have f: "calc_fails
     (Resolved (Response True 200 (Some (vnm_response\<lparr>vr_success := False\<rparr>))))"
    by (simp add: calc_fails_def)
  from failed_calculation_keeps_session [OF f, of held_session] f show ?thesis
    by (simp add: held_session_fields)
qed

section \<open>The total of the weights\<close>



section \<open>The weighted average of the engine\<close>

text \<open>
  Claim C2. For finite weights and per-share values that are finite or absent,
  \<open>computeWeightedAverage\<close> is the sum over the four models of the value, or zero
  for an absent one, times the weight over 100; the weights are not renormalised.
  The values 100000, 110000, 90000 and 95000 give 105000 with the weights 50, 50, 0
  and 0, and 73750 with equal weights when the first value is absent.
\<close>

theorem weighted_average_formula:
  assumes "\<forall>x\<in>{shareValue (r_fcfe r), shareValue (r_fcff r), shareValue (r_justified_pe r),
              shareValue (r_justified_pb r)}. x = Undefined \<or> (\<exists>y. x = Num (Fin y))"
  shows "computeWeightedAverage r
           \<lparr>fcfe = Fin p, fcff = Fin q, justified_pe = Fin u, justified_pb = Fin t\<rparr> =
         Fin (valueOrZero (shareValue (r_fcfe r)) * (p / 100) +
              valueOrZero (shareValue (r_fcff r)) * (q / 100) +
              valueOrZero (shareValue (r_justified_pe r)) * (u / 100) +
              valueOrZero (shareValue (r_justified_pb r)) * (t / 100)) \<and>
         computeWeightedAverage vnm_results
           \<lparr>fcfe = Fin 50, fcff = Fin 50, justified_pe = Fin 0, justified_pb = Fin 0\<rparr> =
         Fin 105000 \<and>
         computeWeightedAverage partial_results
           \<lparr>fcfe = Fin 25, fcff = Fin 25, justified_pe = Fin 25, justified_pb = Fin 25\<rparr> =
         Fin 73750"
proof -
  have c: "\<And>x w. x = Undefined \<or> (\<exists>y. x = Num (Fin y)) \<Longrightarrow>
      contribution x (Fin w) = Fin (valueOrZero x * (w / 100))"
    by (auto simp add: contribution_def valueOrZero_def)
  have "computeWeightedAverage r
           \<lparr>fcfe = Fin p, fcff = Fin q, justified_pe = Fin u, justified_pb = Fin t\<rparr> =
         Fin (valueOrZero (shareValue (r_fcfe r)) * (p / 100) +
              valueOrZero (shareValue (r_fcff r)) * (q / 100) +
              valueOrZero (shareValue (r_justified_pe r)) * (u / 100) +
              valueOrZero (shareValue (r_justified_pb r)) * (t / 100))"
    using assms by (simp add: computeWeightedAverage_def c)
  moreover have "computeWeightedAverage vnm_results
           \<lparr>fcfe = Fin 50, fcff = Fin 50, justified_pe = Fin 0, justified_pb = Fin 0\<rparr> =
         Fin 105000"
    by (simp add: computeWeightedAverage_def contribution_def vnm_results_def)
  moreover have "computeWeightedAverage partial_results
           \<lparr>fcfe = Fin 25, fcff = Fin 25, justified_pe = Fin 25, justified_pb = Fin 25\<rparr> =
         Fin 73750"
    by (simp add: computeWeightedAverage_def contribution_def vnm_results_def partial_results_def)
  ultimately show ?thesis by blast
qed

text \<open>An instance with weights that total 240 and no value for FCFE.\<close>

theorem weighted_average_formula_witness:
  "shareValue (r_fcfe partial_results) = Undefined \<and>
   shareValue (r_fcff partial_results) = Num (Fin 110000) \<and>
   computeWeightedAverage partial_results
     \<lparr>fcfe = Fin 120, fcff = Fin 0, justified_pe = Fin 0, justified_pb = Fin 120\<rparr> =
   Fin (0 * (120 / 100) + 110000 * (0 / 100) + 90000 * (0 / 100) + 95000 * (120 / 100))"
proof -
  have h: "\<forall>x\<in>{shareValue (r_fcfe partial_results), shareValue (r_fcff partial_results),
      shareValue (r_justified_pe partial_results), shareValue (r_justified_pb partial_results)}.
      x = Undefined \<or> (\<exists>y. x = Num (Fin y))"
    by (simp add: partial_results_def vnm_results_def)
  from weighted_average_formula [OF h, of 120 0 0 120] show ?thesis
    by (simp add: partial_results_def vnm_results_def valueOrZero_def)
qed

end
